theory Spec2Isabelle
  imports Complex_Main
begin

section \<open>JavaScript values used by the trigger node\<close>

text \<open>
  The trigger node (\<^verbatim>\<open>EnergyWebTrigger.node.ts\<close>) works on JavaScript numbers, strings and
  BigInts. A block number, a log index or a time stamp is modelled as an integer or
  \<^verbatim>\<open>NaN\<close>: \<^verbatim>\<open>parseInt\<close> gives an integer, or \<^verbatim>\<open>NaN\<close> on a string without digits. The
  transfer threshold is an amount of EWT that the user enters, so it may have a fraction:
  it is modelled as a rational number or \<^verbatim>\<open>NaN\<close>. Infinities and the rounding of doubles
  beyond \<open>2^53\<close> are outside the model. A string is a list of 8-bit characters; case
  conversion and white space are the ASCII ones.
\<close>

datatype number = Num int | NaN

datatype amount = Finite rat | NotANumber

datatype error =
    NodeApiError string "int option"
  | NodeOperationError string
  | RangeError string
  | SyntaxError string

fun message :: "error \<Rightarrow> string" where
  "message (NodeApiError m c) = m"
| "message (NodeOperationError m) = m"
| "message (RangeError m) = m"
| "message (SyntaxError m) = m"

subsection \<open>Number operators\<close>

text \<open>\<^verbatim>\<open>a - b\<close>, \<^verbatim>\<open>Math.max(a, b)\<close> and \<^verbatim>\<open>a > b\<close>: any \<^verbatim>\<open>NaN\<close> operand makes the result
  \<^verbatim>\<open>NaN\<close>, respectively \<^verbatim>\<open>false\<close>.\<close>

fun number_minus :: "number \<Rightarrow> number \<Rightarrow> number" where
  "number_minus (Num a) (Num b) = Num (a - b)"
| "number_minus _ _ = NaN"

fun number_times :: "number \<Rightarrow> number \<Rightarrow> number" where
  "number_times (Num a) (Num b) = Num (a * b)"
| "number_times _ _ = NaN"

fun Math_max :: "number \<Rightarrow> number \<Rightarrow> number" where
  "Math_max (Num a) (Num b) = Num (max a b)"
| "Math_max _ _ = NaN"

fun number_gt :: "number \<Rightarrow> number \<Rightarrow> bool" where
  "number_gt (Num a) (Num b) = (a > b)"
| "number_gt _ _ = False"

subsection \<open>Strings\<close>

definition upperCaseLetters :: string where
  "upperCaseLetters = ''ABCDEFGHIJKLMNOPQRSTUVWXYZ''"

definition lowerCaseLetters :: string where
  "lowerCaseLetters = ''abcdefghijklmnopqrstuvwxyz''"

definition toLowerCaseChar :: "char \<Rightarrow> char" where
  "toLowerCaseChar c =
     (case map_of (zip upperCaseLetters lowerCaseLetters) c of Some d \<Rightarrow> d | None \<Rightarrow> c)"

definition toLowerCase :: "string \<Rightarrow> string" where
  "toLowerCase s = map toLowerCaseChar s"

text \<open>\<^verbatim>\<open>s.slice(-n)\<close> for \<open>n > 0\<close>: the last \<open>n\<close> elements, all of them when there are
  fewer.\<close>

definition slice_last :: "nat \<Rightarrow> 'a list \<Rightarrow> 'a list" where
  "slice_last n s = drop (length s - n) s"

text \<open>\<^verbatim>\<open>s.slice(a, b)\<close> for \<open>0 \<le> a \<le> b\<close>.\<close>

definition slice :: "nat \<Rightarrow> nat \<Rightarrow> 'a list \<Rightarrow> 'a list" where
  "slice a b s = take (b - a) (drop a s)"

definition padEnd :: "nat \<Rightarrow> char \<Rightarrow> string \<Rightarrow> string" where
  "padEnd n c s = s @ replicate (n - length s) c"

definition padStart :: "nat \<Rightarrow> char \<Rightarrow> string \<Rightarrow> string" where
  "padStart n c s = replicate (n - length s) c @ s"

definition isWhiteSpace :: "char \<Rightarrow> bool" where
  "isWhiteSpace c = (c \<in> set [CHR '' '', CHR 0x09, CHR 0x0A, CHR 0x0B, CHR 0x0C, CHR 0x0D])"

definition trimStart :: "string \<Rightarrow> string" where
  "trimStart s = dropWhile isWhiteSpace s"

definition trim :: "string \<Rightarrow> string" where
  "trim s = rev (dropWhile isWhiteSpace (rev (dropWhile isWhiteSpace s)))"

subsection \<open>Digits\<close>

definition digitChars :: string where
  "digitChars = ''0123456789abcdefghijklmnopqrstuvwxyz''"

text \<open>The value of a digit in the given radix, \<open>None\<close> when the character is no digit of
  that radix. Letters count in either case.\<close>

definition digitTable :: "(char \<times> nat) list" where
  "digitTable =
     [(CHR ''0'', 0), (CHR ''1'', 1), (CHR ''2'', 2), (CHR ''3'', 3), (CHR ''4'', 4), (CHR ''5'', 5),
      (CHR ''6'', 6), (CHR ''7'', 7), (CHR ''8'', 8), (CHR ''9'', 9), (CHR ''a'', 10), (CHR ''b'', 11),
      (CHR ''c'', 12), (CHR ''d'', 13), (CHR ''e'', 14), (CHR ''f'', 15), (CHR ''g'', 16), (CHR ''h'', 17),
      (CHR ''i'', 18), (CHR ''j'', 19), (CHR ''k'', 20), (CHR ''l'', 21), (CHR ''m'', 22), (CHR ''n'', 23),
      (CHR ''o'', 24), (CHR ''p'', 25), (CHR ''q'', 26), (CHR ''r'', 27), (CHR ''s'', 28), (CHR ''t'', 29),
      (CHR ''u'', 30), (CHR ''v'', 31), (CHR ''w'', 32), (CHR ''x'', 33), (CHR ''y'', 34), (CHR ''z'', 35)]"

definition digitValue :: "nat \<Rightarrow> char \<Rightarrow> nat option" where
  "digitValue radix c =
     (case map_of digitTable (toLowerCaseChar c) of
        Some d \<Rightarrow> (if d < radix then Some d else None)
      | None \<Rightarrow> None)"

definition isDigitOf :: "nat \<Rightarrow> char \<Rightarrow> bool" where
  "isDigitOf radix c = (digitValue radix c \<noteq> None)"

text \<open>The number that a string of digits denotes; it is applied to digits only.\<close>

definition digitsValue :: "nat \<Rightarrow> string \<Rightarrow> nat" where
  "digitsValue radix ds =
     foldl (\<lambda>acc c. acc * radix + (case digitValue radix c of Some d \<Rightarrow> d | None \<Rightarrow> 0)) 0 ds"

text \<open>\<^verbatim>\<open>n.toString(radix)\<close> of a non-negative integer, for a radix from 2 to 36.\<close>

function natToString :: "nat \<Rightarrow> nat \<Rightarrow> string" where
  "natToString radix n =
     (if radix < 2 \<or> 36 < radix then []
      else if n < radix then [digitChars ! n]
      else natToString radix (n div radix) @ [digitChars ! (n mod radix)])"
  by pat_completeness auto
termination
  by (relation "measure (\<lambda>(radix, n). n)") auto

declare natToString.simps [simp del]

definition intToString :: "nat \<Rightarrow> int \<Rightarrow> string" where
  "intToString radix i =
     (if i < 0 then CHR ''-'' # natToString radix (nat (- i)) else natToString radix (nat i))"

text \<open>\<^verbatim>\<open>String(x)\<close> of a number, in the given radix.\<close>

fun numberToString :: "nat \<Rightarrow> number \<Rightarrow> string" where
  "numberToString radix (Num i) = intToString radix i"
| "numberToString radix NaN = ''NaN''"

subsection \<open>\<^verbatim>\<open>parseInt\<close> and \<^verbatim>\<open>BigInt\<close>\<close>

text \<open>\<^verbatim>\<open>parseInt(s, 16)\<close>: leading white space and one sign are skipped, then an optional
  \<^verbatim>\<open>0x\<close> or \<^verbatim>\<open>0X\<close>; the longest run of hexadecimal digits that follows is the value, and
  no digit at all gives \<^verbatim>\<open>NaN\<close>.\<close>

definition stripSign :: "string \<Rightarrow> bool \<times> string" where
  "stripSign s =
     (case s of
        c # r \<Rightarrow> (if c = CHR ''-'' then (True, r) else if c = CHR ''+'' then (False, r) else (False, s))
      | [] \<Rightarrow> (False, s))"

definition stripHexPrefix :: "string \<Rightarrow> string" where
  "stripHexPrefix s =
     (case s of
        c # d # r \<Rightarrow> (if c = CHR ''0'' \<and> (d = CHR ''x'' \<or> d = CHR ''X'') then r else s)
      | _ \<Rightarrow> s)"

definition parseInt16 :: "string \<Rightarrow> number" where
  "parseInt16 s =
     (let (neg, r) = stripSign (trimStart s);
          ds = takeWhile (isDigitOf 16) (stripHexPrefix r)
      in if ds = [] then NaN
         else Num ((if neg then - 1 else 1) * int (digitsValue 16 ds)))"

text \<open>\<^verbatim>\<open>BigInt(s)\<close> of a string: white space is trimmed; the empty string is \<open>0\<close>; a
  \<^verbatim>\<open>0x\<close>, \<^verbatim>\<open>0o\<close> or \<^verbatim>\<open>0b\<close> literal has no sign and at least one digit; a decimal literal
  may have one sign; anything else raises \<^verbatim>\<open>SyntaxError\<close>.\<close>

definition allDigits :: "nat \<Rightarrow> string \<Rightarrow> bool" where
  "allDigits radix ds = (ds \<noteq> [] \<and> list_all (isDigitOf radix) ds)"

definition radixOfPrefix :: "string \<Rightarrow> (nat \<times> string) option" where
  "radixOfPrefix s =
     (case s of
        c # d # r \<Rightarrow>
          (if c \<noteq> CHR ''0'' then None
           else if d = CHR ''x'' \<or> d = CHR ''X'' then Some (16, r)
           else if d = CHR ''o'' \<or> d = CHR ''O'' then Some (8, r)
           else if d = CHR ''b'' \<or> d = CHR ''B'' then Some (2, r)
           else None)
      | _ \<Rightarrow> None)"

definition BigInt_string :: "string \<Rightarrow> error + int" where
  "BigInt_string s =
     (let t = trim s in
      if t = [] then Inr 0
      else case radixOfPrefix t of
        Some (radix, ds) \<Rightarrow>
          (if allDigits radix ds then Inr (int (digitsValue radix ds))
           else Inl (SyntaxError (''Cannot convert '' @ s @ '' to a BigInt'')))
      | None \<Rightarrow>
          (let (neg, ds) = stripSign t in
           if allDigits 10 ds then Inr ((if neg then - 1 else 1) * int (digitsValue 10 ds))
           else Inl (SyntaxError (''Cannot convert '' @ s @ '' to a BigInt''))))"

text \<open>\<^verbatim>\<open>BigInt(x)\<close> of a number: an integer converts exactly; a number with a fraction and
  \<^verbatim>\<open>NaN\<close> raise \<^verbatim>\<open>RangeError\<close>. The message names the number; its rendering is left out
  for a fraction.\<close>

fun BigInt_number :: "amount \<Rightarrow> error + int" where
  "BigInt_number (Finite q) =
     (if of_int \<lfloor>q\<rfloor> = q then Inr \<lfloor>q\<rfloor>
      else Inl (RangeError ''The number cannot be converted to a BigInt because it is not an integer''))"
| "BigInt_number NotANumber =
     Inl (RangeError ''The number NaN cannot be converted to a BigInt because it is not an integer'')"

text \<open>BigInt division truncates towards zero and the remainder takes the sign of the
  dividend.\<close>

definition bigint_div :: "int \<Rightarrow> int \<Rightarrow> int" where
  "bigint_div a b = sgn a * sgn b * (\<bar>a\<bar> div \<bar>b\<bar>)"

definition bigint_rem :: "int \<Rightarrow> int \<Rightarrow> int" where
  "bigint_rem a b = sgn a * (\<bar>a\<bar> mod \<bar>b\<bar>)"

section \<open>Helpers (\<^verbatim>\<open>utils/helpers.ts\<close>) and constants (\<^verbatim>\<open>constants/constants.ts\<close>)\<close>

text \<open>\<^verbatim>\<open>/^0x[a-fA-F0-9]{40}$/.test(address)\<close>\<close>

definition isValidAddress :: "string \<Rightarrow> bool" where
  "isValidAddress address =
     (case address of
        c # d # r \<Rightarrow> c = CHR ''0'' \<and> d = CHR ''x'' \<and> length r = 40 \<and> list_all (isDigitOf 16) r
      | _ \<Rightarrow> False)"

text \<open>\<^verbatim>\<open>/^0x[a-fA-F0-9]{64}$/.test(txHash)\<close>: the format of a 32-byte hash.\<close>

definition isValidTxHash :: "string \<Rightarrow> bool" where
  "isValidTxHash txHash =
     (case txHash of
        c # d # r \<Rightarrow> c = CHR ''0'' \<and> d = CHR ''x'' \<and> length r = 64 \<and> list_all (isDigitOf 16) r
      | _ \<Rightarrow> False)"

definition hexToNumber :: "string \<Rightarrow> number" where
  "hexToNumber hex = parseInt16 hex"

definition numberToHex :: "number \<Rightarrow> string" where
  "numberToHex num = ''0x'' @ numberToString 16 num"

definition WEI_UNITS_gwei :: string where
  "WEI_UNITS_gwei = ''1000000000''"

definition WEI_UNITS_ewt :: string where
  "WEI_UNITS_ewt = ''1000000000000000000''"

record unitConversion =
  wei :: string
  gwei :: string
  ewt :: string

text \<open>\<^verbatim>\<open>s.replace(/0+$/, '')\<close>\<close>

definition stripTrailingZeros :: "string \<Rightarrow> string" where
  "stripTrailingZeros s = rev (dropWhile (\<lambda>c. c = CHR ''0'') (rev s))"

definition formatEwt :: "int \<Rightarrow> int \<Rightarrow> string" where
  "formatEwt w divisor =
     (let whole = bigint_div w divisor;
          remainder = bigint_rem w divisor
      in if remainder = 0 then intToString 10 whole
         else let decimals = stripTrailingZeros (padStart 18 (CHR ''0'') (intToString 10 remainder))
              in intToString 10 whole @ ''.'' @ decimals)"

definition weiToUnits :: "string \<Rightarrow> error + unitConversion" where
  "weiToUnits weiValue =
     (case BigInt_string weiValue of Inl e \<Rightarrow> Inl e
      | Inr w \<Rightarrow>
     (case BigInt_string WEI_UNITS_gwei of Inl e \<Rightarrow> Inl e
      | Inr gweiDivisor \<Rightarrow>
     (case BigInt_string WEI_UNITS_ewt of Inl e \<Rightarrow> Inl e
      | Inr ewtDivisor \<Rightarrow>
          Inr \<lparr> wei = intToString 10 w,
                gwei = intToString 10 (bigint_div w gweiDivisor),
                ewt = formatEwt w ewtDivisor \<rparr>)))"

text \<open>\<^verbatim>\<open>ewtToWei\<close>, the helper that the operations of the node use to turn an amount of
  EWT, given as decimal text, into base units: \<^verbatim>\<open>ewt.split('.')\<close>, the fraction padded or
  cut to 18 places.\<close>

fun splitOn :: "char \<Rightarrow> string \<Rightarrow> string \<Rightarrow> string list" where
  "splitOn c [] acc = [rev acc]"
| "splitOn c (x # xs) acc =
     (if x = c then rev acc # splitOn c xs [] else splitOn c xs (x # acc))"

definition ewtToWei :: "string \<Rightarrow> error + string" where
  "ewtToWei ewtText =
     (let parts = splitOn (CHR ''.'') ewtText [];
          whole = (case parts of w # _ \<Rightarrow> (if w = [] then ''0'' else w) | [] \<Rightarrow> ''0'');
          decimals0 = (case parts of _ # d # _ \<Rightarrow> d | _ \<Rightarrow> []);
          decimals = slice 0 18 (padEnd 18 (CHR ''0'') decimals0)
      in case BigInt_string whole of Inl e \<Rightarrow> Inl e
         | Inr w \<Rightarrow>
        (case BigInt_string WEI_UNITS_ewt of Inl e \<Rightarrow> Inl e
         | Inr unit \<Rightarrow>
        (case BigInt_string decimals of Inl e \<Rightarrow> Inl e
         | Inr d \<Rightarrow> Inr (intToString 10 (w * unit + d)))))"

datatype networkType = mainnet | volta | custom

record networkConfig =
  name :: string
  chainId :: nat
  rpcUrl :: string
  explorerUrl :: string
  symbol :: string
  decimals :: nat

definition NETWORKS_mainnet :: networkConfig where
  "NETWORKS_mainnet =
     \<lparr> name = ''Energy Web Chain'', chainId = 246, rpcUrl = ''https://rpc.energyweb.org'',
       explorerUrl = ''https://explorer.energyweb.org'', symbol = ''EWT'', decimals = 18 \<rparr>"

definition NETWORKS_volta :: networkConfig where
  "NETWORKS_volta =
     \<lparr> name = ''Volta Testnet'', chainId = 73799, rpcUrl = ''https://volta-rpc.energyweb.org'',
       explorerUrl = ''https://volta-explorer.energyweb.org'', symbol = ''VT'', decimals = 18 \<rparr>"

datatype contractName = didRegistry | claimManager | identityManager

text \<open>\<^verbatim>\<open>DEFAULT_CONTRACTS\<close>: both networks list the same three addresses.\<close>

fun DEFAULT_CONTRACTS :: "networkType \<Rightarrow> contractName \<Rightarrow> string" where
  "DEFAULT_CONTRACTS n didRegistry = ''0xc15d5a57a8eb0e1dcbe5d88b8f9a82017e5cc4af''"
| "DEFAULT_CONTRACTS n claimManager = ''0x5339adE9332A604A1c957B9bC1C6eee0Bcf7a031''"
| "DEFAULT_CONTRACTS n identityManager = ''0x985e531693E3F7353F897EC1cE1E0C70B2bE6F6E''"

definition ERROR_MESSAGES_RPC_ERROR :: string where
  "ERROR_MESSAGES_RPC_ERROR = ''RPC request failed''"

section \<open>Transport (\<^verbatim>\<open>transport/rpcClient.ts\<close>)\<close>

text \<open>
  \<^verbatim>\<open>this.helpers.httpRequest\<close> either resolves with the parsed body or rejects with a
  thrown value: an \<^verbatim>\<open>Error\<close> with its message, or something that is no \<^verbatim>\<open>Error\<close>.
\<close>

datatype 'a httpOutcome = Resolved 'a | Rejected "string option"

record 'a jsonRpcResponse =
  response_error :: "(string \<times> int option) option"
  response_result :: 'a

definition executeRpcRequest :: "'a jsonRpcResponse httpOutcome \<Rightarrow> error + 'a" where
  "executeRpcRequest outcome =
     (case outcome of
        Resolved response \<Rightarrow>
          (case response_error response of
             Some (m, code) \<Rightarrow> Inl (NodeApiError m code)
           | None \<Rightarrow> Inr (response_result response))
      | Rejected (Some m) \<Rightarrow> Inl (NodeApiError m None)
      | Rejected None \<Rightarrow> Inl (NodeApiError ERROR_MESSAGES_RPC_ERROR None))"

definition executeEwScanRequest :: "'a httpOutcome \<Rightarrow> error + 'a" where
  "executeEwScanRequest outcome =
     (case outcome of
        Resolved response \<Rightarrow> Inr response
      | Rejected (Some m) \<Rightarrow> Inl (NodeApiError m None)
      | Rejected None \<Rightarrow> Inl (NodeApiError ''EW Scan API request failed'' None))"

section \<open>Data of the trigger node\<close>

record rawLog =
  log_address :: string
  log_topics :: "string list"
  log_data :: string
  log_blockNumber :: string
  log_transactionHash :: string
  log_logIndex :: string

text \<open>An item of the EW Scan answer.\<close>

record scanLog =
  item_address :: string
  item_topics :: "string list"
  item_data :: string
  item_block_number :: number
  item_transaction_hash :: string
  item_log_index :: number

record scanResponse =
  items :: "scanLog list option"

record transaction =
  tx_hash :: string
  tx_from :: string
  tx_to :: "string option"
  tx_value :: string

record blockData =
  block_number :: string
  block_timestamp :: string
  block_transactions :: "transaction list option"

text \<open>The parameter object of \<^verbatim>\<open>eth_getLogs\<close> and the query of \<^verbatim>\<open>/v1/logs\<close>.\<close>

record logFilter =
  fromBlock :: string
  toBlock :: string
  address :: "string option"
  topics :: "string list"

record scanQuery =
  from_block :: number
  to_block :: number
  topic :: string

text \<open>
  The remote services as one poll sees them: what the HTTP request for each call resolves
  to, and the clock, which every \<^verbatim>\<open>Date.now()\<close> of the poll reads alike. The request
  counter \<^verbatim>\<open>rpcRequestId\<close> only frames the protocol and is left out.
\<close>

record remote =
  eth_blockNumber :: "string jsonRpcResponse httpOutcome"
  eth_getLogs :: "logFilter \<Rightarrow> rawLog list jsonRpcResponse httpOutcome"
  eth_getBlockByNumber :: "string \<Rightarrow> bool \<Rightarrow> blockData option jsonRpcResponse httpOutcome"
  ewScan :: "string \<Rightarrow> scanQuery \<Rightarrow> scanResponse httpOutcome"
  Date_now :: int

datatype triggerType =
    certificateIssued | certificateTransferred | didCreated | didUpdated
  | assetRegistered | largeTransfer | otherTrigger string

record nodeParameters =
  triggerType :: triggerType
  filterAddress :: string
  transferThreshold :: amount
  lookbackBlocks :: number
  certificateContract :: string

record credentials =
  network :: networkType
  didRegistryAddress :: "string option"

text \<open>The \<^verbatim>\<open>json\<close> object of an emitted item, one constructor for each \<^verbatim>\<open>eventType\<close>,
  with the fields in the order of the source.\<close>

datatype event =
    CertificateIssuedEvent
      (certificateId: string) (to_address: string) (contractAddress: string)
      (blockNumber: number) (transactionHash: string) (logIndex: number)
      (networkName: string) (timestamp: number)
  | CertificateTransferredEvent
      (from_address: string) (to_address: string) (contractAddress: string)
      (blockNumber: number) (transactionHash: string) (logIndex: number)
      (networkName: string) (timestamp: number)
  | DidCreatedEvent
      (did: string) (identity: string) (owner: string)
      (blockNumber: number) (transactionHash: string) (logIndex: number)
      (networkName: string) (timestamp: number)
  | DidUpdatedEvent
      (did: string) (identity: string)
      (blockNumber: number) (transactionHash: string) (logIndex: number)
      (networkName: string) (timestamp: number)
  | AssetRegisteredEvent
      (owner: string) (contractAddress: string)
      (blockNumber: number) (transactionHash: string) (logIndex: number)
      (networkName: string) (timestamp: number)
  | LargeTransferEvent
      (from_address: string) (to_option: "string option") (value_wei: string) (valueEwt: string)
      (threshold: amount)
      (blockNumber: number) (transactionHash: string)
      (networkName: string) (timestamp: number)

fun eventType :: "event \<Rightarrow> string" where
  "eventType (CertificateIssuedEvent _ _ _ _ _ _ _ _) = ''certificateIssued''"
| "eventType (CertificateTransferredEvent _ _ _ _ _ _ _ _) = ''certificateTransferred''"
| "eventType (DidCreatedEvent _ _ _ _ _ _ _ _) = ''didCreated''"
| "eventType (DidUpdatedEvent _ _ _ _ _ _ _) = ''didUpdated''"
| "eventType (AssetRegisteredEvent _ _ _ _ _ _ _) = ''assetRegistered''"
| "eventType (LargeTransferEvent _ _ _ _ _ _ _ _ _) = ''largeTransfer''"

text \<open>The workflow static data of the node: each field is absent until the first
  successful poll writes it.\<close>

record staticData =
  sd_lastBlockNumber :: "number option"
  sd_lastTimestamp :: "number option"
  sd_processedTxHashes :: "string list option"

record pollState =
  lastBlockNumber :: int
  lastTimestamp :: int
  processedTxHashes :: "string list"

section \<open>The decoders\<close>

definition getNetworkConfig :: "networkType \<Rightarrow> networkConfig" where
  "getNetworkConfig n =
     (if n = mainnet then NETWORKS_mainnet
      else if n = volta then NETWORKS_volta
      else NETWORKS_mainnet)"

definition getContractAddress :: "networkType \<Rightarrow> contractName \<Rightarrow> string" where
  "getContractAddress n contract =
     (if n = mainnet \<or> n = volta then DEFAULT_CONTRACTS n contract
      else DEFAULT_CONTRACTS mainnet contract)"

text \<open>\<^verbatim>\<open>topics[i] ? '0x' + topics[i].slice(-40) : 'unknown'\<close>, the expression each log decoder
  uses to read an address from an indexed topic: a missing or empty topic is falsy.\<close>

definition topicPresent :: "string list \<Rightarrow> nat \<Rightarrow> bool" where
  "topicPresent ts i = (i < length ts \<and> ts ! i \<noteq> [])"

definition topicAddress :: "string list \<Rightarrow> nat \<Rightarrow> string" where
  "topicAddress ts i =
     (if topicPresent ts i then ''0x'' @ slice_last 40 (ts ! i) else ''unknown'')"

text \<open>\<^verbatim>\<open>filterAddress && isValidAddress(filterAddress)\<close>\<close>

definition filterApplies :: "string \<Rightarrow> bool" where
  "filterApplies f = (f \<noteq> [] \<and> isValidAddress f)"

text \<open>\<^verbatim>\<open>x || undefined\<close> for the optional contract address of the log filter.\<close>

definition orUndefined :: "string \<Rightarrow> string option" where
  "orUndefined x = (if x = [] then None else Some x)"

text \<open>\<^verbatim>\<open>did:ethr:${network === 'volta' ? 'volta' : 'ewc'}:${identity}\<close>\<close>

definition didOf :: "networkType \<Rightarrow> string \<Rightarrow> string" where
  "didOf n ident = ''did:ethr:'' @ (if n = volta then ''volta'' else ''ewc'') @ '':'' @ ident"

subsection \<open>\<^verbatim>\<open>pollCertificateIssued\<close>\<close>

definition certificateIssued_eventTopic :: string where
  "certificateIssued_eventTopic = ''0x'' @ slice 0 64 (padEnd 64 (CHR ''0'') ''CertificateIssued'')"

definition certificateIssued_request :: "nodeParameters \<Rightarrow> number \<Rightarrow> number \<Rightarrow> logFilter" where
  "certificateIssued_request p fromB toB =
     \<lparr> fromBlock = numberToHex fromB, toBlock = numberToHex toB,
       address = orUndefined (certificateContract p),
       topics = [certificateIssued_eventTopic] \<rparr>"

text \<open>The object pushed for a log, and the body of the loop over the logs: \<open>None\<close> is
  \<^verbatim>\<open>continue\<close>, \<open>Some\<close> is the pushed event. The other log decoders follow the same
  pattern.\<close>

definition certificateIssued_event :: "credentials \<Rightarrow> remote \<Rightarrow> rawLog \<Rightarrow> event" where
  "certificateIssued_event creds r l =
     (let certId = (if topicPresent (log_topics l) 1
                    then numberToString 10 (hexToNumber (log_topics l ! 1)) else ''unknown'');
          toAddress = topicAddress (log_topics l) 2
      in CertificateIssuedEvent certId toAddress (log_address l)
           (hexToNumber (log_blockNumber l)) (log_transactionHash l)
           (hexToNumber (log_logIndex l))
           (name (getNetworkConfig (network creds))) (Num (Date_now r)))"

definition certificateIssued_log ::
    "nodeParameters \<Rightarrow> credentials \<Rightarrow> remote \<Rightarrow> rawLog \<Rightarrow> event option" where
  "certificateIssued_log p creds r l =
     (let toAddress = topicAddress (log_topics l) 2
      in if filterApplies (filterAddress p)
            \<and> toLowerCase toAddress \<noteq> toLowerCase (filterAddress p) then None
         else Some (certificateIssued_event creds r l))"

definition pollCertificateIssued ::
    "nodeParameters \<Rightarrow> credentials \<Rightarrow> remote \<Rightarrow> number \<Rightarrow> number \<Rightarrow> error + event list" where
  "pollCertificateIssued p creds r fromB toB =
     (case executeRpcRequest (eth_getLogs r (certificateIssued_request p fromB toB)) of
        Inl e \<Rightarrow> Inl e
      | Inr logs \<Rightarrow> Inr (List.map_filter (certificateIssued_log p creds r) logs))"

subsection \<open>\<^verbatim>\<open>pollCertificateTransferred\<close>\<close>

definition certificateTransferred_eventTopic :: string where
  "certificateTransferred_eventTopic =
     ''0xc3d58168c5ae7397731d063d5bbf3d657854427343f4c083240f7aacaa2d0f62''"

definition certificateTransferred_request :: "nodeParameters \<Rightarrow> number \<Rightarrow> number \<Rightarrow> logFilter" where
  "certificateTransferred_request p fromB toB =
     \<lparr> fromBlock = numberToHex fromB, toBlock = numberToHex toB,
       address = orUndefined (certificateContract p),
       topics = [certificateTransferred_eventTopic] \<rparr>"

definition certificateTransferred_event :: "credentials \<Rightarrow> remote \<Rightarrow> rawLog \<Rightarrow> event" where
  "certificateTransferred_event creds r l =
     CertificateTransferredEvent (topicAddress (log_topics l) 2) (topicAddress (log_topics l) 3)
       (log_address l)
       (hexToNumber (log_blockNumber l)) (log_transactionHash l)
       (hexToNumber (log_logIndex l))
       (name (getNetworkConfig (network creds))) (Num (Date_now r))"

definition certificateTransferred_log ::
    "nodeParameters \<Rightarrow> credentials \<Rightarrow> remote \<Rightarrow> rawLog \<Rightarrow> event option" where
  "certificateTransferred_log p creds r l =
     (let from = topicAddress (log_topics l) 2;
          to = topicAddress (log_topics l) 3
      in if filterApplies (filterAddress p)
            \<and> toLowerCase from \<noteq> toLowerCase (filterAddress p)
            \<and> toLowerCase to \<noteq> toLowerCase (filterAddress p) then None
         else Some (certificateTransferred_event creds r l))"

definition pollCertificateTransferred ::
    "nodeParameters \<Rightarrow> credentials \<Rightarrow> remote \<Rightarrow> number \<Rightarrow> number \<Rightarrow> error + event list" where
  "pollCertificateTransferred p creds r fromB toB =
     (case executeRpcRequest (eth_getLogs r (certificateTransferred_request p fromB toB)) of
        Inl e \<Rightarrow> Inl e
      | Inr logs \<Rightarrow> Inr (List.map_filter (certificateTransferred_log p creds r) logs))"

subsection \<open>\<^verbatim>\<open>pollDIDCreated\<close> and \<^verbatim>\<open>pollDIDUpdated\<close>\<close>

text \<open>\<^verbatim>\<open>credentials.didRegistryAddress || getContractAddress(network, 'didRegistry')\<close>\<close>

definition didRegistryOf :: "credentials \<Rightarrow> string" where
  "didRegistryOf creds =
     (case didRegistryAddress creds of
        Some a \<Rightarrow> (if a = [] then getContractAddress (network creds) didRegistry else a)
      | None \<Rightarrow> getContractAddress (network creds) didRegistry)"

definition didCreated_eventTopic :: string where
  "didCreated_eventTopic =
     ''0x38a5a6e68f30ed1ab45860a4afb34bcb2fc00f22ca462d249b8a8d40cda6f7a3''"

definition didCreated_request :: "credentials \<Rightarrow> number \<Rightarrow> number \<Rightarrow> logFilter" where
  "didCreated_request creds fromB toB =
     \<lparr> fromBlock = numberToHex fromB, toBlock = numberToHex toB,
       address = Some (didRegistryOf creds),
       topics = [didCreated_eventTopic] \<rparr>"

definition dataOwner :: "rawLog \<Rightarrow> string" where
  "dataOwner l = (if log_data l \<noteq> [] then ''0x'' @ slice 26 66 (log_data l) else ''unknown'')"

definition didCreated_event :: "credentials \<Rightarrow> remote \<Rightarrow> rawLog \<Rightarrow> event" where
  "didCreated_event creds r l =
     (let ident = topicAddress (log_topics l) 1
      in DidCreatedEvent (didOf (network creds) ident) ident (dataOwner l)
           (hexToNumber (log_blockNumber l)) (log_transactionHash l)
           (hexToNumber (log_logIndex l))
           (name (getNetworkConfig (network creds))) (Num (Date_now r)))"

definition didCreated_log ::
    "nodeParameters \<Rightarrow> credentials \<Rightarrow> remote \<Rightarrow> rawLog \<Rightarrow> event option" where
  "didCreated_log p creds r l =
     (let ident = topicAddress (log_topics l) 1;
          own = dataOwner l
      in if toLowerCase ident \<noteq> toLowerCase own then None
         else if filterApplies (filterAddress p)
            \<and> toLowerCase ident \<noteq> toLowerCase (filterAddress p) then None
         else Some (didCreated_event creds r l))"

definition pollDIDCreated ::
    "nodeParameters \<Rightarrow> credentials \<Rightarrow> remote \<Rightarrow> number \<Rightarrow> number \<Rightarrow> error + event list" where
  "pollDIDCreated p creds r fromB toB =
     (case executeRpcRequest (eth_getLogs r (didCreated_request creds fromB toB)) of
        Inl e \<Rightarrow> Inl e
      | Inr logs \<Rightarrow> Inr (List.map_filter (didCreated_log p creds r) logs))"

definition didUpdated_eventTopic :: string where
  "didUpdated_eventTopic =
     ''0x18ab6b2ae3d64571f0c9f8c5e2b72f3a23bfa3773b1c3c4e5d3e2fd0e3e1c4b2''"

definition didUpdated_request :: "credentials \<Rightarrow> number \<Rightarrow> number \<Rightarrow> logFilter" where
  "didUpdated_request creds fromB toB =
     \<lparr> fromBlock = numberToHex fromB, toBlock = numberToHex toB,
       address = Some (didRegistryOf creds),
       topics = [didUpdated_eventTopic] \<rparr>"

definition didUpdated_event :: "credentials \<Rightarrow> remote \<Rightarrow> rawLog \<Rightarrow> event" where
  "didUpdated_event creds r l =
     (let ident = topicAddress (log_topics l) 1
      in DidUpdatedEvent (didOf (network creds) ident) ident
           (hexToNumber (log_blockNumber l)) (log_transactionHash l)
           (hexToNumber (log_logIndex l))
           (name (getNetworkConfig (network creds))) (Num (Date_now r)))"

definition didUpdated_log ::
    "nodeParameters \<Rightarrow> credentials \<Rightarrow> remote \<Rightarrow> rawLog \<Rightarrow> event option" where
  "didUpdated_log p creds r l =
     (let ident = topicAddress (log_topics l) 1
      in if filterApplies (filterAddress p)
            \<and> toLowerCase ident \<noteq> toLowerCase (filterAddress p) then None
         else Some (didUpdated_event creds r l))"

definition pollDIDUpdated ::
    "nodeParameters \<Rightarrow> credentials \<Rightarrow> remote \<Rightarrow> number \<Rightarrow> number \<Rightarrow> error + event list" where
  "pollDIDUpdated p creds r fromB toB =
     (case executeRpcRequest (eth_getLogs r (didUpdated_request creds fromB toB)) of
        Inl e \<Rightarrow> Inl e
      | Inr logs \<Rightarrow> Inr (List.map_filter (didUpdated_log p creds r) logs))"

subsection \<open>\<^verbatim>\<open>pollAssetRegistered\<close>\<close>

definition assetRegistered_event :: "credentials \<Rightarrow> remote \<Rightarrow> scanLog \<Rightarrow> event" where
  "assetRegistered_event creds r l =
     AssetRegisteredEvent (topicAddress (item_topics l) 1) (item_address l)
       (item_block_number l) (item_transaction_hash l) (item_log_index l)
       (name (getNetworkConfig (network creds))) (Num (Date_now r))"

definition assetRegistered_log ::
    "nodeParameters \<Rightarrow> credentials \<Rightarrow> remote \<Rightarrow> scanLog \<Rightarrow> event option" where
  "assetRegistered_log p creds r l =
     (let own = topicAddress (item_topics l) 1
      in if filterApplies (filterAddress p)
            \<and> toLowerCase own \<noteq> toLowerCase (filterAddress p) then None
         else Some (assetRegistered_event creds r l))"

text \<open>The whole body is inside \<^verbatim>\<open>try\<close>; the \<^verbatim>\<open>catch\<close> returns the empty list.\<close>

definition pollAssetRegistered ::
    "nodeParameters \<Rightarrow> credentials \<Rightarrow> remote \<Rightarrow> number \<Rightarrow> number \<Rightarrow> error + event list" where
  "pollAssetRegistered p creds r fromB toB =
     (case executeEwScanRequest
             (ewScan r ''/v1/logs'' \<lparr> from_block = fromB, to_block = toB, topic = ''AssetRegistered'' \<rparr>) of
        Inl e \<Rightarrow> Inr []
      | Inr response \<Rightarrow>
          Inr (List.map_filter (assetRegistered_log p creds r)
                 (case items response of Some ls \<Rightarrow> ls | None \<Rightarrow> [])))"

subsection \<open>\<^verbatim>\<open>pollLargeTransfer\<close>\<close>

text \<open>\<^verbatim>\<open>BigInt(threshold) * BigInt(10 ** 18)\<close>\<close>

definition thresholdWei :: "nodeParameters \<Rightarrow> error + int" where
  "thresholdWei p =
     (case BigInt_number (transferThreshold p) of Inl e \<Rightarrow> Inl e
      | Inr t \<Rightarrow>
     (case BigInt_number (Finite (10 ^ 18)) of Inl e \<Rightarrow> Inl e
      | Inr unit \<Rightarrow> Inr (t * unit)))"

text \<open>\<^verbatim>\<open>tx.value || '0'\<close> and \<^verbatim>\<open>tx.to?.toLowerCase() || ''\<close>\<close>

definition valueOrZero :: "transaction \<Rightarrow> string" where
  "valueOrZero tx = (if tx_value tx = [] then ''0'' else tx_value tx)"

definition toLowerOrEmpty :: "transaction \<Rightarrow> string" where
  "toLowerOrEmpty tx = (case tx_to tx of Some t \<Rightarrow> toLowerCase t | None \<Rightarrow> [])"

text \<open>The body of the loop over the transactions of a block: \<open>Inr None\<close> is
  \<^verbatim>\<open>continue\<close>, \<open>Inr (Some ev)\<close> the pushed event, \<open>Inl\<close> a thrown error.\<close>

definition largeTransfer_tx ::
    "nodeParameters \<Rightarrow> credentials \<Rightarrow> int \<Rightarrow> blockData \<Rightarrow> transaction \<Rightarrow> error + event option" where
  "largeTransfer_tx p creds thresholdW blk tx =
     (case BigInt_string (valueOrZero tx) of Inl e \<Rightarrow> Inl e
      | Inr v \<Rightarrow>
          if v < thresholdW then Inr None
          else if filterApplies (filterAddress p)
                  \<and> toLowerCase (tx_from tx) \<noteq> toLowerCase (filterAddress p)
                  \<and> toLowerOrEmpty tx \<noteq> toLowerCase (filterAddress p)
          then Inr None
          else (case weiToUnits (intToString 10 v) of Inl e \<Rightarrow> Inl e
                | Inr valueUnits \<Rightarrow>
                    Inr (Some (LargeTransferEvent (tx_from tx) (tx_to tx) (intToString 10 v)
                                 (ewt valueUnits) (transferThreshold p)
                                 (hexToNumber (block_number blk)) (tx_hash tx)
                                 (name (getNetworkConfig (network creds)))
                                 (number_times (hexToNumber (block_timestamp blk)) (Num 1000))))))"

text \<open>The loop over the transactions pushes onto \<^verbatim>\<open>events\<close> as it goes. A thrown error
  leaves the loop; the \<^verbatim>\<open>catch\<close> of the block swallows it, so the events pushed before it
  stay and the rest of the block is skipped.\<close>

fun forTransactions ::
    "(transaction \<Rightarrow> error + event option) \<Rightarrow> transaction list \<Rightarrow> event list \<Rightarrow> event list" where
  "forTransactions body [] events = events"
| "forTransactions body (tx # txs) events =
     (case body tx of
        Inl e \<Rightarrow> events
      | Inr None \<Rightarrow> forTransactions body txs events
      | Inr (Some ev) \<Rightarrow> forTransactions body txs (events @ [ev]))"

text \<open>One block \<open>b\<close>: fetch it with its transactions and scan them. A failed fetch, a
  \<^verbatim>\<open>null\<close> block and a block without transactions add nothing.\<close>

definition scanBlock ::
    "remote \<Rightarrow> (blockData \<Rightarrow> transaction \<Rightarrow> error + event option) \<Rightarrow> int \<Rightarrow> event list \<Rightarrow> event list" where
  "scanBlock r body b events =
     (case executeRpcRequest (eth_getBlockByNumber r (numberToHex (Num b)) True) of
        Inl e \<Rightarrow> events
      | Inr None \<Rightarrow> events
      | Inr (Some blk) \<Rightarrow>
          (case block_transactions blk of
             None \<Rightarrow> events
           | Some txs \<Rightarrow> forTransactions (body blk) txs events))"

text \<open>\<^verbatim>\<open>for (let b = block; b <= endBlock; b++)\<close>\<close>

function forBlocks :: "(int \<Rightarrow> event list \<Rightarrow> event list) \<Rightarrow> int \<Rightarrow> int \<Rightarrow> event list \<Rightarrow> event list" where
  "forBlocks step b endBlock events =
     (if b \<le> endBlock then forBlocks step (b + 1) endBlock (step b events) else events)"
  by pat_completeness auto
termination
  by (relation "measure (\<lambda>(step, b, endBlock, events). nat (endBlock + 1 - b))") auto

declare forBlocks.simps [simp del]

definition batchSize :: int where
  "batchSize = 10"

text \<open>\<^verbatim>\<open>for (let block = fromBlock; block <= toBlock; block += batchSize)\<close>\<close>

function forBatches :: "(int \<Rightarrow> event list \<Rightarrow> event list) \<Rightarrow> int \<Rightarrow> int \<Rightarrow> event list \<Rightarrow> event list" where
  "forBatches step block toB events =
     (if block \<le> toB
      then forBatches step (block + batchSize) toB
             (forBlocks step block (min (block + batchSize - 1) toB) events)
      else events)"
  by pat_completeness auto
termination
  by (relation "measure (\<lambda>(step, block, toB, events). nat (toB + 1 - block))")
     (auto simp: batchSize_def)

declare forBatches.simps [simp del]

text \<open>With a \<^verbatim>\<open>NaN\<close> bound the loop condition is false at once.\<close>

definition pollLargeTransfer ::
    "nodeParameters \<Rightarrow> credentials \<Rightarrow> remote \<Rightarrow> number \<Rightarrow> number \<Rightarrow> error + event list" where
  "pollLargeTransfer p creds r fromB toB =
     (case thresholdWei p of Inl e \<Rightarrow> Inl e
      | Inr thresholdW \<Rightarrow>
          (case (fromB, toB) of
             (Num f, Num t) \<Rightarrow>
               Inr (forBatches (scanBlock r (largeTransfer_tx p creds thresholdW)) f t [])
           | _ \<Rightarrow> Inr []))"

section \<open>The poll orchestrator: \<^verbatim>\<open>EnergyWebTrigger.poll\<close>\<close>

text \<open>\<^verbatim>\<open>(workflowStaticData.x as number) || 0\<close>: absent, \<^verbatim>\<open>NaN\<close> and \<open>0\<close> all read as \<open>0\<close>.\<close>

definition orZero :: "number option \<Rightarrow> int" where
  "orZero x = (case x of Some (Num i) \<Rightarrow> i | _ \<Rightarrow> 0)"

definition getPollState :: "staticData \<Rightarrow> pollState" where
  "getPollState sd =
     \<lparr> lastBlockNumber = orZero (sd_lastBlockNumber sd),
       lastTimestamp = orZero (sd_lastTimestamp sd),
       processedTxHashes = (case sd_processedTxHashes sd of Some hs \<Rightarrow> hs | None \<Rightarrow> []) \<rparr>"

text \<open>The first block of the window.\<close>

definition computeFromBlock :: "pollState \<Rightarrow> number \<Rightarrow> number \<Rightarrow> number" where
  "computeFromBlock st currentBlock lookback =
     (if lastBlockNumber st = 0
      then Math_max (Num 0) (number_minus currentBlock lookback)
      else Num (lastBlockNumber st + 1))"

text \<open>The \<^verbatim>\<open>switch\<close> on the trigger type.\<close>

fun dispatch ::
    "triggerType \<Rightarrow> nodeParameters \<Rightarrow> credentials \<Rightarrow> remote \<Rightarrow> number \<Rightarrow> number \<Rightarrow> error + event list" where
  "dispatch certificateIssued p creds r fromB toB = pollCertificateIssued p creds r fromB toB"
| "dispatch certificateTransferred p creds r fromB toB = pollCertificateTransferred p creds r fromB toB"
| "dispatch didCreated p creds r fromB toB = pollDIDCreated p creds r fromB toB"
| "dispatch didUpdated p creds r fromB toB = pollDIDUpdated p creds r fromB toB"
| "dispatch assetRegistered p creds r fromB toB = pollAssetRegistered p creds r fromB toB"
| "dispatch largeTransfer p creds r fromB toB = pollLargeTransfer p creds r fromB toB"
| "dispatch (otherTrigger t) p creds r fromB toB =
     Inl (NodeOperationError (''Unknown trigger type: '' @ t))"

text \<open>The \<^verbatim>\<open>catch\<close> of \<^verbatim>\<open>poll\<close> wraps whatever was thrown.\<close>

definition pollFailed :: "error \<Rightarrow> error" where
  "pollFailed e = NodeOperationError (''Poll failed: '' @ message e)"

text \<open>\<^verbatim>\<open>events.filter(e => !pollState.processedTxHashes.includes(e.json.transactionHash))\<close>\<close>

definition newEventsOf :: "pollState \<Rightarrow> event list \<Rightarrow> event list" where
  "newEventsOf st events =
     filter (\<lambda>ev. transactionHash ev \<notin> set (processedTxHashes st)) events"

text \<open>\<^verbatim>\<open>newEvents.map(e => e.json.transactionHash).filter(Boolean).slice(-1000)\<close>\<close>

definition hashesToKeep :: "event list \<Rightarrow> string list" where
  "hashesToKeep newEvents =
     slice_last 1000 (filter (\<lambda>h. h \<noteq> []) (map transactionHash newEvents))"

text \<open>
  One invocation of \<^verbatim>\<open>poll\<close>. The result is the thrown error, \<^verbatim>\<open>null\<close> (\<open>Inr None\<close>) or the
  batch \<^verbatim>\<open>[newEvents]\<close> (\<open>Inr (Some newEvents)\<close>), together with the static data after the
  call.
\<close>

definition poll ::
    "nodeParameters \<Rightarrow> credentials \<Rightarrow> remote \<Rightarrow> staticData
       \<Rightarrow> (error + event list option) \<times> staticData" where
  "poll p creds r sd =
     (let st = getPollState sd in
      case executeRpcRequest (eth_blockNumber r) of
        Inl e \<Rightarrow> (Inl (pollFailed e), sd)
      | Inr currentBlockHex \<Rightarrow>
          (let currentBlock = hexToNumber currentBlockHex;
               fromB = computeFromBlock st currentBlock (lookbackBlocks p)
           in if number_gt fromB currentBlock then (Inr None, sd)
              else
                (case dispatch (triggerType p) p creds r fromB currentBlock of
                   Inl e \<Rightarrow> (Inl (pollFailed e), sd)
                 | Inr events \<Rightarrow>
                     (let newEvents = newEventsOf st events;
                          sd' = sd \<lparr> sd_lastBlockNumber := Some currentBlock,
                                     sd_lastTimestamp := Some (Num (Date_now r)),
                                     sd_processedTxHashes := Some (hashesToKeep newEvents) \<rparr>
                      in if newEvents = [] then (Inr None, sd')
                         else (Inr (Some newEvents), sd')))))"

section \<open>Vocabulary of the statements\<close>

text \<open>The log filter that the decoder of a trigger type sends to \<^verbatim>\<open>eth_getLogs\<close>; the
  asset and the large-transfer decoders send none.\<close>

definition getLogsRequest ::
    "triggerType \<Rightarrow> nodeParameters \<Rightarrow> credentials \<Rightarrow> number \<Rightarrow> number \<Rightarrow> logFilter option" where
  "getLogsRequest t p creds fromB toB =
     (case t of
        certificateIssued \<Rightarrow> Some (certificateIssued_request p fromB toB)
      | certificateTransferred \<Rightarrow> Some (certificateTransferred_request p fromB toB)
      | didCreated \<Rightarrow> Some (didCreated_request creds fromB toB)
      | didUpdated \<Rightarrow> Some (didUpdated_request creds fromB toB)
      | _ \<Rightarrow> None)"

text \<open>The characters of a decimal rendering, for the round trip through \<^verbatim>\<open>toString\<close> and
  \<^verbatim>\<open>BigInt\<close>.\<close>

definition decimalChars :: "char set" where
  "decimalChars = set ''0123456789''"

text \<open>A transaction whose value reads as a number at or above the cutoff \<open>w\<close>.\<close>

definition reachesThreshold :: "int \<Rightarrow> transaction \<Rightarrow> bool" where
  "reachesThreshold w tx = (case BigInt_string (valueOrZero tx) of Inr v \<Rightarrow> w \<le> v | Inl e \<Rightarrow> False)"

section \<open>Concrete inputs\<close>

text \<open>
  A chain at height 450 (\<^verbatim>\<open>0x1c2\<close>) whose log query answers with two certificate transfers
  from \<^verbatim>\<open>0xAA..\<close> to \<^verbatim>\<open>0xBB..\<close>, one per transaction hash; the indexer is unreachable.
\<close>

definition txHash_old :: string where
  "txHash_old = ''0xaaaaaaaaaaaaaaaaaaaaaaaaaaaaaaaaaaaaaaaaaaaaaaaaaaaaaaaaaaaaaaaa''"

definition txHash_new :: string where
  "txHash_new = ''0xbbbbbbbbbbbbbbbbbbbbbbbbbbbbbbbbbbbbbbbbbbbbbbbbbbbbbbbbbbbbbbbb''"

definition transfer_log :: "string \<Rightarrow> rawLog" where
  "transfer_log h =
     \<lparr> log_address = ''0x1111111111111111111111111111111111111111'',
       log_topics =
         [certificateTransferred_eventTopic,
          ''0x0000000000000000000000009999999999999999999999999999999999999999'',
          ''0x000000000000000000000000AAAAAAAAAAAAAAAAAAAAAAAAAAAAAAAAAAAAAAAA'',
          ''0x000000000000000000000000BBBBBBBBBBBBBBBBBBBBBBBBBBBBBBBBBBBBBBBB''],
       log_data = ''0x'',
       log_blockNumber = ''0x1c2'',
       log_transactionHash = h,
       log_logIndex = ''0x0'' \<rparr>"

definition example_remote :: remote where
  "example_remote =
     \<lparr> eth_blockNumber = Resolved \<lparr> response_error = None, response_result = ''0x1c2'' \<rparr>,
       eth_getLogs = (\<lambda>q. Resolved \<lparr> response_error = None,
                                     response_result = [transfer_log txHash_old, transfer_log txHash_new] \<rparr>),
       eth_getBlockByNumber = (\<lambda>b full. Resolved \<lparr> response_error = None, response_result = None \<rparr>),
       ewScan = (\<lambda>path q. Rejected (Some ''connect ECONNREFUSED'')),
       Date_now = 1700000000000 \<rparr>"

definition example_parameters :: nodeParameters where
  "example_parameters =
     \<lparr> triggerType = certificateTransferred, filterAddress = [], transferThreshold = Finite 100,
       lookbackBlocks = Num 100, certificateContract = [] \<rparr>"

definition example_credentials :: credentials where
  "example_credentials = \<lparr> network = mainnet, didRegistryAddress = None \<rparr>"

text \<open>A cursor left at block 400 that remembers one hash, a cursor already at the chain
  height, and the cursor of a node that has never polled.\<close>

definition example_staticData :: staticData where
  "example_staticData =
     \<lparr> sd_lastBlockNumber = Some (Num 400), sd_lastTimestamp = Some (Num 1699999940000),
       sd_processedTxHashes = Some [txHash_old] \<rparr>"

definition current_staticData :: staticData where
  "current_staticData =
     \<lparr> sd_lastBlockNumber = Some (Num 450), sd_lastTimestamp = Some (Num 1699999940000),
       sd_processedTxHashes = Some [txHash_old] \<rparr>"

definition initial_staticData :: staticData where
  "initial_staticData =
     \<lparr> sd_lastBlockNumber = None, sd_lastTimestamp = None, sd_processedTxHashes = None \<rparr>"

text \<open>A chain at height 500 (\<^verbatim>\<open>0x1f4\<close>) that answers the log query for the blocks
  \<^verbatim>\<open>0x190\<close> to \<^verbatim>\<open>0x1f4\<close> only.\<close>

definition lookback_remote :: remote where
  "lookback_remote =
     \<lparr> eth_blockNumber = Resolved \<lparr> response_error = None, response_result = ''0x1f4'' \<rparr>,
       eth_getLogs = (\<lambda>q. if fromBlock q = ''0x190'' \<and> toBlock q = ''0x1f4''
                           then Resolved \<lparr> response_error = None,
                                           response_result = [transfer_log txHash_new] \<rparr>
                           else Rejected (Some ''unexpected block range'')),
       eth_getBlockByNumber = (\<lambda>b full. Resolved \<lparr> response_error = None, response_result = None \<rparr>),
       ewScan = (\<lambda>path q. Rejected (Some ''connect ECONNREFUSED'')),
       Date_now = 1700000000000 \<rparr>"

text \<open>Variations of the concrete inputs: other trigger types, a node that cannot serve
  blocks, a node that cannot be reached, and a node that rejects the log query.\<close>

definition largeTransfer_parameters :: nodeParameters where
  "largeTransfer_parameters = example_parameters \<lparr> triggerType := largeTransfer \<rparr>"

definition assetRegistered_parameters :: nodeParameters where
  "assetRegistered_parameters = example_parameters \<lparr> triggerType := assetRegistered \<rparr>"

definition unreachable_blocks_remote :: remote where
  "unreachable_blocks_remote =
     example_remote \<lparr> eth_getBlockByNumber := (\<lambda>b full. Rejected (Some ''socket hang up'')) \<rparr>"

definition offline_remote :: remote where
  "offline_remote = example_remote \<lparr> eth_blockNumber := Rejected None \<rparr>"

definition failing_logs_remote :: remote where
  "failing_logs_remote =
     example_remote \<lparr> eth_getLogs :=
       (\<lambda>q. Resolved \<lparr> response_error = Some (''query returned more than 10000 results'', Some (- 32005)),
                       response_result = [] \<rparr>) \<rparr>"

text \<open>Address filters: the lower-case \<^verbatim>\<open>0xbb..\<close>, the unrelated \<^verbatim>\<open>0xCC..\<close>, and an
  abbreviated address that is no valid address.\<close>

definition lowercase_b_parameters :: nodeParameters where
  "lowercase_b_parameters =
     example_parameters \<lparr> filterAddress := ''0xbbbbbbbbbbbbbbbbbbbbbbbbbbbbbbbbbbbbbbbb'' \<rparr>"

definition uppercase_C_parameters :: nodeParameters where
  "uppercase_C_parameters =
     example_parameters \<lparr> filterAddress := ''0xCCCCCCCCCCCCCCCCCCCCCCCCCCCCCCCCCCCCCCCC'' \<rparr>"

definition abbreviated_filter_parameters :: nodeParameters where
  "abbreviated_filter_parameters = example_parameters \<lparr> filterAddress := ''0xCCCC...CCCC'' \<rparr>"

text \<open>Block 450 with two transfers, of \<open>100 * 10^18 - 1\<close> and of \<open>100 * 10^18\<close> base units
  (\<^verbatim>\<open>0x56bc75e2d630fffff\<close> and \<^verbatim>\<open>0x56bc75e2d63100000\<close>), on a node that serves this block,
  and a cursor at block 449.\<close>

definition transfer_at_threshold :: transaction where
  "transfer_at_threshold =
     \<lparr> tx_hash = txHash_new,
       tx_from = ''0xAAAAAAAAAAAAAAAAAAAAAAAAAAAAAAAAAAAAAAAA'',
       tx_to = Some ''0xBBBBBBBBBBBBBBBBBBBBBBBBBBBBBBBBBBBBBBBB'',
       tx_value = ''0x56bc75e2d63100000'' \<rparr>"

definition transfer_below_threshold :: transaction where
  "transfer_below_threshold =
     \<lparr> tx_hash = txHash_old,
       tx_from = ''0xAAAAAAAAAAAAAAAAAAAAAAAAAAAAAAAAAAAAAAAA'',
       tx_to = Some ''0xBBBBBBBBBBBBBBBBBBBBBBBBBBBBBBBBBBBBBBBB'',
       tx_value = ''0x56bc75e2d630fffff'' \<rparr>"

definition example_block :: blockData where
  "example_block =
     \<lparr> block_number = ''0x1c2'', block_timestamp = ''0x6553f100'',
       block_transactions = Some [transfer_below_threshold, transfer_at_threshold] \<rparr>"

definition block_remote :: remote where
  "block_remote =
     example_remote \<lparr> eth_getBlockByNumber :=
       (\<lambda>b full. if b = ''0x1c2'' \<and> full
                  then Resolved \<lparr> response_error = None, response_result = Some example_block \<rparr>
                  else Resolved \<lparr> response_error = None, response_result = None \<rparr>) \<rparr>"

definition recent_staticData :: staticData where
  "recent_staticData =
     \<lparr> sd_lastBlockNumber = Some (Num 449), sd_lastTimestamp = Some (Num 1699999940000),
       sd_processedTxHashes = Some [] \<rparr>"

text \<open>A threshold of half an EWT, and a node whose every block holds one transfer of
  exactly \<open>5 * 10^17\<close> base units (\<^verbatim>\<open>0x6f05b59d3b20000\<close>).\<close>

definition half_ewt_parameters :: nodeParameters where
  "half_ewt_parameters = largeTransfer_parameters \<lparr> transferThreshold := Finite (1 / 2) \<rparr>"

definition half_ewt_transfer :: transaction where
  "half_ewt_transfer =
     \<lparr> tx_hash = txHash_new,
       tx_from = ''0xAAAAAAAAAAAAAAAAAAAAAAAAAAAAAAAAAAAAAAAA'',
       tx_to = Some ''0xBBBBBBBBBBBBBBBBBBBBBBBBBBBBBBBBBBBBBBBB'',
       tx_value = ''0x6f05b59d3b20000'' \<rparr>"

definition half_ewt_remote :: remote where
  "half_ewt_remote =
     example_remote \<lparr> eth_getBlockByNumber :=
       (\<lambda>b full. Resolved \<lparr> response_error = None,
                             response_result =
                               Some \<lparr> block_number = b, block_timestamp = ''0x6553f100'',
                                      block_transactions = Some [half_ewt_transfer] \<rparr> \<rparr>) \<rparr>"

text \<open>An indexer that answers with one registered asset owned by \<^verbatim>\<open>0xAA..\<close>, and the
  abbreviated filter on the large-transfer trigger.\<close>

definition asset_item :: scanLog where
  "asset_item =
     \<lparr> item_address = ''0x2222222222222222222222222222222222222222'',
       item_topics =
         [''AssetRegistered'',
          ''0x000000000000000000000000AAAAAAAAAAAAAAAAAAAAAAAAAAAAAAAAAAAAAAAA''],
       item_data = ''0x'',
       item_block_number = Num 450,
       item_transaction_hash = txHash_new,
       item_log_index = Num 0 \<rparr>"

definition indexed_remote :: remote where
  "indexed_remote =
     example_remote \<lparr> ewScan := (\<lambda>path q. Resolved \<lparr> items = Some [asset_item] \<rparr>) \<rparr>"

definition abbreviated_largeTransfer_parameters :: nodeParameters where
  "abbreviated_largeTransfer_parameters =
     abbreviated_filter_parameters \<lparr> triggerType := largeTransfer \<rparr>"

section \<open>Evaluating the model\<close>

lemmas js_defs =
  BigInt_string_def trim_def isWhiteSpace_def radixOfPrefix_def stripSign_def allDigits_def
  isDigitOf_def digitValue_def digitsValue_def toLowerCaseChar_def upperCaseLetters_def
  lowerCaseLetters_def digitTable_def parseInt16_def trimStart_def stripHexPrefix_def
  hexToNumber_def

lemma hexToNumber_0x1c2: "hexToNumber ''0x1c2'' = Num 450"
  by (simp add: js_defs)

lemma transactionHash_certificateTransferred_event [simp]:
  "transactionHash (certificateTransferred_event creds r l) = log_transactionHash l"
  by (simp add: certificateTransferred_event_def)

lemma certificateTransferred_log_no_filter:
  "\<not> filterApplies (filterAddress p) \<Longrightarrow>
     certificateTransferred_log p creds r l = Some (certificateTransferred_event creds r l)"
  by (simp add: certificateTransferred_log_def)

lemma example_height: "executeRpcRequest (eth_blockNumber example_remote) = Inr ''0x1c2''"
  by (simp add: example_remote_def executeRpcRequest_def)

lemma example_logs:
  "executeRpcRequest (eth_getLogs example_remote q)
     = Inr [transfer_log txHash_old, transfer_log txHash_new]"
  by (simp add: example_remote_def executeRpcRequest_def)

lemma example_lookback: "lookbackBlocks example_parameters = Num 100"
  by (simp add: example_parameters_def)

lemma example_from:
  "computeFromBlock (getPollState example_staticData) (Num 450) (Num 100) = Num 401"
  by (simp add: computeFromBlock_def getPollState_def example_staticData_def orZero_def)

lemma example_window:
  "\<not> number_gt (computeFromBlock (getPollState example_staticData) (hexToNumber ''0x1c2'')
        (lookbackBlocks example_parameters)) (hexToNumber ''0x1c2'')"
  by (simp add: hexToNumber_0x1c2 example_lookback example_from)

lemma current_window:
  "number_gt (computeFromBlock (getPollState current_staticData) (hexToNumber ''0x1c2'')
        (lookbackBlocks example_parameters)) (hexToNumber ''0x1c2'')"
  by (simp add: hexToNumber_0x1c2 computeFromBlock_def getPollState_def current_staticData_def
        orZero_def)

lemma example_dispatch:
  "dispatch (triggerType example_parameters) example_parameters example_credentials
       example_remote fromB toB
     = Inr [certificateTransferred_event example_credentials example_remote (transfer_log txHash_old),
            certificateTransferred_event example_credentials example_remote (transfer_log txHash_new)]"
proof -
  have "\<not> filterApplies (filterAddress example_parameters)"
    by (simp add: example_parameters_def filterApplies_def)
  then show ?thesis
    by (simp add: example_parameters_def pollCertificateTransferred_def example_logs
          certificateTransferred_log_no_filter List.map_filter_simps)
qed

lemma example_new:
  "newEventsOf (getPollState example_staticData)
     [certificateTransferred_event example_credentials example_remote (transfer_log txHash_old),
      certificateTransferred_event example_credentials example_remote (transfer_log txHash_new)]
   = [certificateTransferred_event example_credentials example_remote (transfer_log txHash_new)]"
proof -
  have n: "txHash_new \<noteq> txHash_old"
    by (simp add: txHash_old_def txHash_new_def)
  have s: "processedTxHashes (getPollState example_staticData) = [txHash_old]"
    by (simp add: getPollState_def example_staticData_def)
  show ?thesis
    using n by (simp add: newEventsOf_def s transfer_log_def)
qed

lemma example_keep:
  "hashesToKeep
     [certificateTransferred_event example_credentials example_remote (transfer_log txHash_new)]
     = [txHash_new]"
proof -
  have "txHash_new \<noteq> []"
    by (simp add: txHash_new_def)
  then show ?thesis
    by (simp add: hashesToKeep_def slice_last_def transfer_log_def)
qed

section \<open>The orchestrator, case by case\<close>

lemma poll_height_failure:
  "executeRpcRequest (eth_blockNumber r) = Inl e \<Longrightarrow> poll p creds r sd = (Inl (pollFailed e), sd)"
  by (simp add: poll_def)

lemma poll_no_new_blocks:
  assumes "executeRpcRequest (eth_blockNumber r) = Inr hex"
    and "number_gt (computeFromBlock (getPollState sd) (hexToNumber hex) (lookbackBlocks p))
           (hexToNumber hex)"
  shows "poll p creds r sd = (Inr None, sd)"
  using assms by (simp add: poll_def Let_def)

lemma poll_dispatch_failure:
  assumes "executeRpcRequest (eth_blockNumber r) = Inr hex"
    and "\<not> number_gt (computeFromBlock (getPollState sd) (hexToNumber hex) (lookbackBlocks p))
             (hexToNumber hex)"
    and "dispatch (triggerType p) p creds r
           (computeFromBlock (getPollState sd) (hexToNumber hex) (lookbackBlocks p))
           (hexToNumber hex) = Inl e"
  shows "poll p creds r sd = (Inl (pollFailed e), sd)"
  using assms by (simp add: poll_def Let_def)

lemma poll_dispatch_success:
  assumes "executeRpcRequest (eth_blockNumber r) = Inr hex"
    and "\<not> number_gt (computeFromBlock (getPollState sd) (hexToNumber hex) (lookbackBlocks p))
             (hexToNumber hex)"
    and "dispatch (triggerType p) p creds r
           (computeFromBlock (getPollState sd) (hexToNumber hex) (lookbackBlocks p))
           (hexToNumber hex) = Inr events"
  shows "poll p creds r sd =
           ((if newEventsOf (getPollState sd) events = [] then Inr None
             else Inr (Some (newEventsOf (getPollState sd) events))),
            sd \<lparr> sd_lastBlockNumber := Some (hexToNumber hex),
                 sd_lastTimestamp := Some (Num (Date_now r)),
                 sd_processedTxHashes :=
                   Some (hashesToKeep (newEventsOf (getPollState sd) events)) \<rparr>)"
  using assms by (simp add: poll_def Let_def)

lemma example_poll:
  "poll example_parameters example_credentials example_remote example_staticData =
     (Inr (Some [certificateTransferred_event example_credentials example_remote
                   (transfer_log txHash_new)]),
      \<lparr> sd_lastBlockNumber = Some (Num 450), sd_lastTimestamp = Some (Num 1700000000000),
        sd_processedTxHashes = Some [txHash_new] \<rparr>)"
proof -
  have d: "Date_now example_remote = 1700000000000"
    by (simp add: example_remote_def)
  show ?thesis
    by (simp add: poll_dispatch_success [OF example_height example_window example_dispatch]
          example_new example_keep hexToNumber_0x1c2 d)
qed

section \<open>Cursor advance\<close>

text \<open>
  C2. When the first block of the window lies beyond the fetched chain height, the poll
  returns \<^verbatim>\<open>null\<close> and the static data is exactly what it was. Otherwise a poll that does
  not abort leaves \<^verbatim>\<open>lastBlockNumber\<close> at the fetched height, whether it returns a batch or
  \<^verbatim>\<open>null\<close>.
\<close>

theorem poll_cursor_advance:
  assumes "executeRpcRequest (eth_blockNumber r) = Inr hex"
  shows "(number_gt (computeFromBlock (getPollState sd) (hexToNumber hex) (lookbackBlocks p))
            (hexToNumber hex)
            \<longrightarrow> poll p creds r sd = (Inr None, sd))
       \<and> (\<not> number_gt (computeFromBlock (getPollState sd) (hexToNumber hex) (lookbackBlocks p))
              (hexToNumber hex)
            \<longrightarrow> (\<forall>out. fst (poll p creds r sd) = Inr out
                   \<longrightarrow> sd_lastBlockNumber (snd (poll p creds r sd)) = Some (hexToNumber hex)))"
proof (intro conjI impI allI)
  assume "number_gt (computeFromBlock (getPollState sd) (hexToNumber hex) (lookbackBlocks p))
            (hexToNumber hex)"
  with assms show "poll p creds r sd = (Inr None, sd)"
    by (rule poll_no_new_blocks)
next
  fix out
  assume w: "\<not> number_gt (computeFromBlock (getPollState sd) (hexToNumber hex) (lookbackBlocks p))
                 (hexToNumber hex)"
    and ok: "fst (poll p creds r sd) = Inr out"
  show "sd_lastBlockNumber (snd (poll p creds r sd)) = Some (hexToNumber hex)"
  proof (cases "dispatch (triggerType p) p creds r
           (computeFromBlock (getPollState sd) (hexToNumber hex) (lookbackBlocks p))
           (hexToNumber hex)")
    case (Inl e)
    with assms w ok show ?thesis
      by (simp add: poll_dispatch_failure)
  next
    case (Inr events)
    with assms w show ?thesis
      by (simp add: poll_dispatch_success)
  qed
qed

theorem poll_cursor_advance_witness:
  "executeRpcRequest (eth_blockNumber example_remote) = Inr ''0x1c2''
   \<and> poll example_parameters example_credentials example_remote current_staticData
       = (Inr None, current_staticData)
   \<and> fst (poll example_parameters example_credentials example_remote example_staticData)
       = Inr (Some [certificateTransferred_event example_credentials example_remote
                      (transfer_log txHash_new)])
   \<and> sd_lastBlockNumber
       (snd (poll example_parameters example_credentials example_remote example_staticData))
       = Some (Num 450)"
proof -
  note stale = poll_cursor_advance [OF example_height,
      of current_staticData example_parameters example_credentials, THEN conjunct1, THEN mp,
      OF current_window]
  have ok: "fst (poll example_parameters example_credentials example_remote example_staticData)
      = Inr (Some [certificateTransferred_event example_credentials example_remote
                     (transfer_log txHash_new)])"
    by (simp add: example_poll)
  note fresh = poll_cursor_advance [OF example_height,
      of example_staticData example_parameters example_credentials, THEN conjunct2, THEN mp,
      OF example_window, THEN spec, THEN mp, OF ok]
  from example_height stale ok fresh show ?thesis
    by (simp add: hexToNumber_0x1c2)
qed

lemma numberToHex_400: "numberToHex (Num 400) = ''0x190''"
  by (simp add: numberToHex_def intToString_def natToString.simps [of 16 400]
        natToString.simps [of 16 25] natToString.simps [of 16 "Suc 0"] digitChars_def)

lemma numberToHex_500: "numberToHex (Num 500) = ''0x1f4''"
  by (simp add: numberToHex_def intToString_def natToString.simps [of 16 500]
        natToString.simps [of 16 31] natToString.simps [of 16 "Suc 0"] digitChars_def)

lemma hexToNumber_0x1f4: "hexToNumber ''0x1f4'' = Num 500"
  by (simp add: js_defs)

section \<open>The scan window\<close>

text \<open>
  C4. With the fetched chain height \<open>H\<close> and the configured lookback: when the cursor's
  \<^verbatim>\<open>lastBlockNumber\<close> is \<open>0\<close> the window starts at \<open>max 0 (H - lookback)\<close>, otherwise at
  \<^verbatim>\<open>lastBlockNumber + 1\<close>; the decoder is run on the window from there to \<open>H\<close>, and is not
  run at all when the start lies beyond \<open>H\<close>. The instances after it have the windows \<open>[400, 500]\<close>
  (first poll, lookback 100, height 500) and \<open>[401, 450]\<close> (cursor at 400, height 450).
\<close>

theorem poll_scan_window:
  assumes "executeRpcRequest (eth_blockNumber r) = Inr hex"
    and "hexToNumber hex = Num H"
    and "lookbackBlocks p = Num lookback"
  shows "computeFromBlock (getPollState sd) (Num H) (Num lookback)
           = Num (if lastBlockNumber (getPollState sd) = 0 then max 0 (H - lookback)
                  else lastBlockNumber (getPollState sd) + 1)
       \<and> (let fromB = (if lastBlockNumber (getPollState sd) = 0 then max 0 (H - lookback)
                        else lastBlockNumber (getPollState sd) + 1)
          in if fromB > H then poll p creds r sd = (Inr None, sd)
             else fst (poll p creds r sd)
                    = (case dispatch (triggerType p) p creds r (Num fromB) (Num H) of
                         Inl e \<Rightarrow> Inl (pollFailed e)
                       | Inr events \<Rightarrow>
                           if newEventsOf (getPollState sd) events = [] then Inr None
                           else Inr (Some (newEventsOf (getPollState sd) events))))"
proof -
  let ?fromB = "if lastBlockNumber (getPollState sd) = 0 then max 0 (H - lookback)
                else lastBlockNumber (getPollState sd) + 1"
  have c: "computeFromBlock (getPollState sd) (Num H) (Num lookback) = Num ?fromB"
    by (simp add: computeFromBlock_def)
  have "poll p creds r sd = (Inr None, sd)" if "?fromB > H"
    using that assms c by (intro poll_no_new_blocks [where hex = hex]) simp_all
  moreover have "fst (poll p creds r sd)
        = (case dispatch (triggerType p) p creds r (Num ?fromB) (Num H) of
             Inl e \<Rightarrow> Inl (pollFailed e)
           | Inr events \<Rightarrow>
               if newEventsOf (getPollState sd) events = [] then Inr None
               else Inr (Some (newEventsOf (getPollState sd) events)))" if "\<not> ?fromB > H"
  proof -
    from that c assms have w: "\<not> number_gt (computeFromBlock (getPollState sd) (hexToNumber hex)
        (lookbackBlocks p)) (hexToNumber hex)"
      by simp
    show ?thesis
    proof (cases "dispatch (triggerType p) p creds r (Num ?fromB) (Num H)")
      case (Inl e)
      then have "dispatch (triggerType p) p creds r
           (computeFromBlock (getPollState sd) (hexToNumber hex) (lookbackBlocks p))
           (hexToNumber hex) = Inl e"
        using assms c by simp
      from poll_dispatch_failure [OF assms(1) w this] Inl show ?thesis by simp
    next
      case (Inr events)
      then have "dispatch (triggerType p) p creds r
           (computeFromBlock (getPollState sd) (hexToNumber hex) (lookbackBlocks p))
           (hexToNumber hex) = Inr events"
        using assms c by simp
      from poll_dispatch_success [OF assms(1) w this] Inr show ?thesis by simp
    qed
  qed
  ultimately show ?thesis
    using c by (simp add: Let_def)
qed

lemma lookback_height: "executeRpcRequest (eth_blockNumber lookback_remote) = Inr ''0x1f4''"
  by (simp add: lookback_remote_def executeRpcRequest_def)

lemma initial_last: "lastBlockNumber (getPollState initial_staticData) = 0"
  by (simp add: getPollState_def initial_staticData_def orZero_def)

lemma example_last: "lastBlockNumber (getPollState example_staticData) = 400"
  by (simp add: getPollState_def example_staticData_def orZero_def)

lemma lookback_dispatch:
  "dispatch (triggerType example_parameters) example_parameters example_credentials
       lookback_remote (Num 400) (Num 500)
     = Inr [certificateTransferred_event example_credentials lookback_remote (transfer_log txHash_new)]"
proof -
  have f: "\<not> filterApplies (filterAddress example_parameters)"
    by (simp add: example_parameters_def filterApplies_def)
  have q: "executeRpcRequest (eth_getLogs lookback_remote
             (certificateTransferred_request example_parameters (Num 400) (Num 500)))
           = Inr [transfer_log txHash_new]"
    by (simp add: lookback_remote_def executeRpcRequest_def certificateTransferred_request_def
          numberToHex_400 numberToHex_500)
  have t: "triggerType example_parameters = certificateTransferred"
    by (simp add: example_parameters_def)
  show ?thesis
    by (simp add: t pollCertificateTransferred_def q
          certificateTransferred_log_no_filter [OF f] List.map_filter_simps)
qed

lemma initial_new:
  "newEventsOf (getPollState initial_staticData) evs = evs"
  by (simp add: newEventsOf_def getPollState_def initial_staticData_def)

theorem poll_scan_window_witness:
  "hexToNumber ''0x1f4'' = Num 500
   \<and> computeFromBlock (getPollState initial_staticData) (Num 500) (Num 100) = Num 400
   \<and> fst (poll example_parameters example_credentials lookback_remote initial_staticData)
       = Inr (Some [certificateTransferred_event example_credentials lookback_remote
                      (transfer_log txHash_new)])
   \<and> hexToNumber ''0x1c2'' = Num 450
   \<and> computeFromBlock (getPollState example_staticData) (Num 450) (Num 100) = Num 401"
proof -
  note first = poll_scan_window [OF lookback_height hexToNumber_0x1f4 example_lookback,
      of initial_staticData example_credentials]
  note later = poll_scan_window [OF example_height hexToNumber_0x1c2 example_lookback,
      of example_staticData example_credentials]
  from first have a: "computeFromBlock (getPollState initial_staticData) (Num 500) (Num 100) = Num 400"
    by (simp add: initial_last)
  from first have b: "fst (poll example_parameters example_credentials lookback_remote initial_staticData)
       = Inr (Some [certificateTransferred_event example_credentials lookback_remote
                      (transfer_log txHash_new)])"
    by (simp add: initial_last lookback_dispatch initial_new)
  from later have c: "computeFromBlock (getPollState example_staticData) (Num 450) (Num 100) = Num 401"
    by (simp add: example_last)
  from a b c show ?thesis
    by (simp add: hexToNumber_0x1f4 hexToNumber_0x1c2)
qed

section \<open>Deduplication\<close>

text \<open>
  C5. A batch returned by a poll is never empty, and no event in it carries a transaction
  hash that the cursor held in \<^verbatim>\<open>processedTxHashes\<close> before the poll.
\<close>

theorem poll_batch_new_and_nonempty:
  assumes "fst (poll p creds r sd) = Inr (Some batch)"
  shows "batch \<noteq> []
       \<and> (\<forall>ev \<in> set batch. transactionHash ev \<notin> set (processedTxHashes (getPollState sd)))"
  using assms
  by (auto simp: poll_def Let_def newEventsOf_def split: sum.splits if_splits)

theorem poll_batch_new_and_nonempty_witness:
  "fst (poll example_parameters example_credentials example_remote example_staticData)
     = Inr (Some [certificateTransferred_event example_credentials example_remote
                    (transfer_log txHash_new)])
   \<and> processedTxHashes (getPollState example_staticData) = [txHash_old]
   \<and> transactionHash (certificateTransferred_event example_credentials example_remote
                        (transfer_log txHash_old)) = txHash_old
   \<and> transactionHash (certificateTransferred_event example_credentials example_remote
                        (transfer_log txHash_new))
       \<notin> set (processedTxHashes (getPollState example_staticData))"
proof -
  have ok: "fst (poll example_parameters example_credentials example_remote example_staticData)
      = Inr (Some [certificateTransferred_event example_credentials example_remote
                     (transfer_log txHash_new)])"
    by (simp add: example_poll)
  from poll_batch_new_and_nonempty [OF ok]
  have "transactionHash (certificateTransferred_event example_credentials example_remote
                        (transfer_log txHash_new))
       \<notin> set (processedTxHashes (getPollState example_staticData))"
    by simp
  with ok show ?thesis
    by (simp add: getPollState_def example_staticData_def transfer_log_def)
qed

text \<open>
  C1. The cursor is meant to keep the trailing 1000 hashes of the old list followed by the
  hashes emitted now. The code stores the hashes emitted by this poll alone: with
  \<^verbatim>\<open>txHash_old\<close> remembered and one new event emitted, the stored list is
  \<^verbatim>\<open>[txHash_new]\<close> and not \<^verbatim>\<open>[txHash_old, txHash_new]\<close>.
\<close>

theorem poll_forgets_earlier_hashes:
  "sd_processedTxHashes example_staticData = Some [txHash_old]
   \<and> fst (poll example_parameters example_credentials example_remote example_staticData)
       = Inr (Some [certificateTransferred_event example_credentials example_remote
                      (transfer_log txHash_new)])
   \<and> sd_processedTxHashes
       (snd (poll example_parameters example_credentials example_remote example_staticData))
       = Some [txHash_new]
   \<and> slice_last 1000
       ([txHash_old] @ map transactionHash
          [certificateTransferred_event example_credentials example_remote (transfer_log txHash_new)])
       = [txHash_old, txHash_new]
   \<and> [txHash_new] \<noteq> [txHash_old, txHash_new]"
proof (intro conjI)
  show "sd_processedTxHashes example_staticData = Some [txHash_old]"
    by (simp add: example_staticData_def)
  show "fst (poll example_parameters example_credentials example_remote example_staticData)
       = Inr (Some [certificateTransferred_event example_credentials example_remote
                      (transfer_log txHash_new)])"
    by (simp add: example_poll)
  show "sd_processedTxHashes
       (snd (poll example_parameters example_credentials example_remote example_staticData))
       = Some [txHash_new]"
    by (simp add: example_poll)
  show "slice_last 1000
       ([txHash_old] @ map transactionHash
          [certificateTransferred_event example_credentials example_remote (transfer_log txHash_new)])
       = [txHash_old, txHash_new]"
    by (simp add: slice_last_def transfer_log_def)
  show "[txHash_new] \<noteq> [txHash_old, txHash_new]"
    by simp
qed

section \<open>Failures\<close>

lemma forBlocks_skip:
  assumes "\<forall>b ev. step b ev = ev"
  shows "forBlocks step b endBlock events = events"
  using assms
proof (induction step b endBlock events rule: forBlocks.induct)
  case (1 step b endBlock events)
  show ?case
  proof (cases "b \<le> endBlock")
    case True
    from 1(2) have s: "step b events = events"
      by blast
    from 1(1) [OF True 1(2)] s have "forBlocks step (b + 1) endBlock events = events"
      by simp
    with True s show ?thesis
      by (subst forBlocks.simps) simp
  next
    case False
    then show ?thesis
      by (subst forBlocks.simps) simp
  qed
qed

lemma forBatches_skip:
  assumes "\<forall>b ev. step b ev = ev"
  shows "forBatches step block toB events = events"
  using assms
proof (induction step block toB events rule: forBatches.induct)
  case (1 step block toB events)
  show ?case
  proof (cases "block \<le> toB")
    case True
    have s: "forBlocks step block (min (block + batchSize - 1) toB) events = events"
      using 1(2) by (rule forBlocks_skip)
    from 1(1) [OF True 1(2)] s have "forBatches step (block + batchSize) toB events = events"
      by simp
    with True s show ?thesis
      by (subst forBatches.simps) simp
  next
    case False
    then show ?thesis
      by (subst forBatches.simps) simp
  qed
qed

lemma getLogs_failure_dispatch:
  assumes "getLogsRequest t p creds fromB toB = Some q"
    and "executeRpcRequest (eth_getLogs r q) = Inl e"
  shows "dispatch t p creds r fromB toB = Inl e"
  using assms
  by (cases t)
     (auto simp: getLogsRequest_def pollCertificateIssued_def pollCertificateTransferred_def
        pollDIDCreated_def pollDIDUpdated_def)

lemma poll_atomic:
  "fst (poll p creds r sd) = Inl e \<Longrightarrow> snd (poll p creds r sd) = sd"
  by (auto simp: poll_def Let_def split: sum.splits if_splits)

text \<open>
  C3 (amended). A poll that ends with an error leaves the static data exactly as it was.
  It ends with an error when the chain height cannot be fetched, and when the
  \<^verbatim>\<open>eth_getLogs\<close> call of a log decoder (certificate issued, certificate transferred, DID
  created, DID updated) fails.
\<close>

theorem poll_abort_leaves_cursor:
  "(\<forall>e. fst (poll p creds r sd) = Inl e \<longrightarrow> snd (poll p creds r sd) = sd)
   \<and> (\<forall>e. executeRpcRequest (eth_blockNumber r) = Inl e
          \<longrightarrow> poll p creds r sd = (Inl (pollFailed e), sd))
   \<and> (\<forall>hex q e.
          executeRpcRequest (eth_blockNumber r) = Inr hex
          \<and> \<not> number_gt (computeFromBlock (getPollState sd) (hexToNumber hex) (lookbackBlocks p))
                 (hexToNumber hex)
          \<and> getLogsRequest (triggerType p) p creds
                (computeFromBlock (getPollState sd) (hexToNumber hex) (lookbackBlocks p))
                (hexToNumber hex) = Some q
          \<and> executeRpcRequest (eth_getLogs r q) = Inl e
          \<longrightarrow> poll p creds r sd = (Inl (pollFailed e), sd))"
proof (intro conjI allI impI)
  fix e assume "fst (poll p creds r sd) = Inl e"
  then show "snd (poll p creds r sd) = sd" by (rule poll_atomic)
next
  fix e assume "executeRpcRequest (eth_blockNumber r) = Inl e"
  then show "poll p creds r sd = (Inl (pollFailed e), sd)" by (rule poll_height_failure)
next
  fix hex q e
  assume a: "executeRpcRequest (eth_blockNumber r) = Inr hex
          \<and> \<not> number_gt (computeFromBlock (getPollState sd) (hexToNumber hex) (lookbackBlocks p))
                 (hexToNumber hex)
          \<and> getLogsRequest (triggerType p) p creds
                (computeFromBlock (getPollState sd) (hexToNumber hex) (lookbackBlocks p))
                (hexToNumber hex) = Some q
          \<and> executeRpcRequest (eth_getLogs r q) = Inl e"
  then have "dispatch (triggerType p) p creds r
                (computeFromBlock (getPollState sd) (hexToNumber hex) (lookbackBlocks p))
                (hexToNumber hex) = Inl e"
    by (intro getLogs_failure_dispatch [where q = q]) simp_all
  with a show "poll p creds r sd = (Inl (pollFailed e), sd)"
    by (intro poll_dispatch_failure [where hex = hex]) simp_all
qed

lemma offline_height:
  "executeRpcRequest (eth_blockNumber offline_remote) = Inl (NodeApiError ''RPC request failed'' None)"
  by (simp add: offline_remote_def example_remote_def executeRpcRequest_def ERROR_MESSAGES_RPC_ERROR_def)

lemma failing_logs_height:
  "executeRpcRequest (eth_blockNumber failing_logs_remote) = Inr ''0x1c2''"
  by (simp add: failing_logs_remote_def example_remote_def executeRpcRequest_def)

lemma failing_logs_query:
  "executeRpcRequest (eth_getLogs failing_logs_remote q)
     = Inl (NodeApiError ''query returned more than 10000 results'' (Some (- 32005)))"
  by (simp add: failing_logs_remote_def example_remote_def executeRpcRequest_def)

lemma example_request:
  "getLogsRequest (triggerType example_parameters) example_parameters example_credentials fromB toB
     = Some (certificateTransferred_request example_parameters fromB toB)"
  by (simp add: getLogsRequest_def example_parameters_def)

theorem poll_abort_leaves_cursor_witness:
  "poll example_parameters example_credentials offline_remote example_staticData
     = (Inl (NodeOperationError ''Poll failed: RPC request failed''), example_staticData)
   \<and> poll example_parameters example_credentials failing_logs_remote example_staticData
     = (Inl (NodeOperationError ''Poll failed: query returned more than 10000 results''),
        example_staticData)
   \<and> snd (poll example_parameters example_credentials failing_logs_remote example_staticData)
     = example_staticData"
proof -
  note t = poll_abort_leaves_cursor [of example_parameters example_credentials _ example_staticData]
  from t [of offline_remote] offline_height
  have a: "poll example_parameters example_credentials offline_remote example_staticData
     = (Inl (pollFailed (NodeApiError ''RPC request failed'' None)), example_staticData)"
    by blast
  from t [of failing_logs_remote] failing_logs_height example_window example_request failing_logs_query
  have b: "poll example_parameters example_credentials failing_logs_remote example_staticData
     = (Inl (pollFailed (NodeApiError ''query returned more than 10000 results'' (Some (- 32005)))),
        example_staticData)"
    by blast
  have "fst (poll example_parameters example_credentials failing_logs_remote example_staticData)
     = Inl (pollFailed (NodeApiError ''query returned more than 10000 results'' (Some (- 32005))))"
    by (simp add: b)
  with t [of failing_logs_remote]
  have c: "snd (poll example_parameters example_credentials failing_logs_remote example_staticData)
     = example_staticData"
    by blast
  from a b c show ?thesis
    by (simp add: pollFailed_def)
qed

text \<open>
  The large-transfer decoder is different: it catches the failure of each block fetch and
  goes on. With every \<^verbatim>\<open>eth_getBlockByNumber\<close> call failing, the poll still returns
  \<^verbatim>\<open>null\<close> and moves the cursor from 400 to 450.
\<close>

lemma unreachable_height:
  "executeRpcRequest (eth_blockNumber unreachable_blocks_remote) = Inr ''0x1c2''"
  by (simp add: unreachable_blocks_remote_def example_remote_def executeRpcRequest_def)

lemma unreachable_block:
  "executeRpcRequest (eth_getBlockByNumber unreachable_blocks_remote b full)
     = Inl (NodeApiError ''socket hang up'' None)"
  by (simp add: unreachable_blocks_remote_def example_remote_def executeRpcRequest_def)

lemma example_thresholdWei: "thresholdWei (example_parameters \<lparr> triggerType := t \<rparr>) = Inr (100 * 10 ^ 18)"
  by (simp add: thresholdWei_def example_parameters_def)

lemma unreachable_dispatch:
  "dispatch (triggerType largeTransfer_parameters) largeTransfer_parameters example_credentials
      unreachable_blocks_remote (Num f) (Num t) = Inr []"
proof -
  have "scanBlock unreachable_blocks_remote body b ev = ev" for body b ev
    by (simp add: scanBlock_def unreachable_block)
  then show ?thesis
    by (simp add: largeTransfer_parameters_def pollLargeTransfer_def example_thresholdWei
          forBatches_skip)
qed

theorem largeTransfer_fetch_failure_counterexample:
  "executeRpcRequest (eth_getBlockByNumber unreachable_blocks_remote (numberToHex (Num 401)) True)
     = Inl (NodeApiError ''socket hang up'' None)
   \<and> fst (poll largeTransfer_parameters example_credentials unreachable_blocks_remote
            example_staticData) = Inr None
   \<and> sd_lastBlockNumber example_staticData = Some (Num 400)
   \<and> sd_lastBlockNumber
       (snd (poll largeTransfer_parameters example_credentials unreachable_blocks_remote
               example_staticData)) = Some (Num 450)"
proof -
  have l: "lookbackBlocks largeTransfer_parameters = Num 100"
    by (simp add: largeTransfer_parameters_def example_parameters_def)
  have w: "\<not> number_gt (computeFromBlock (getPollState example_staticData) (hexToNumber ''0x1c2'')
        (lookbackBlocks largeTransfer_parameters)) (hexToNumber ''0x1c2'')"
    by (simp add: hexToNumber_0x1c2 l example_from)
  have d: "dispatch (triggerType largeTransfer_parameters) largeTransfer_parameters
      example_credentials unreachable_blocks_remote
      (computeFromBlock (getPollState example_staticData) (hexToNumber ''0x1c2'')
        (lookbackBlocks largeTransfer_parameters)) (hexToNumber ''0x1c2'') = Inr []"
    by (simp add: hexToNumber_0x1c2 l example_from unreachable_dispatch)
  have s: "sd_lastBlockNumber example_staticData = Some (Num 400)"
    by (simp add: example_staticData_def)
  show ?thesis
    by (simp add: unreachable_block s poll_dispatch_success [OF unreachable_height w d]
          newEventsOf_def hexToNumber_0x1c2)
qed

text \<open>
  C8. When the EW Scan request of the asset decoder is rejected, the decoder returns the
  empty list; the poll does not raise, returns \<^verbatim>\<open>null\<close>, and moves the cursor to the
  fetched height with the current time.
\<close>

theorem assetRegistered_indexer_failure:
  assumes "triggerType p = assetRegistered"
    and "executeRpcRequest (eth_blockNumber r) = Inr hex"
    and "\<not> number_gt (computeFromBlock (getPollState sd) (hexToNumber hex) (lookbackBlocks p))
             (hexToNumber hex)"
    and "ewScan r ''/v1/logs''
           \<lparr> from_block = computeFromBlock (getPollState sd) (hexToNumber hex) (lookbackBlocks p),
             to_block = hexToNumber hex, topic = ''AssetRegistered'' \<rparr> = Rejected thrown"
  shows "pollAssetRegistered p creds r
           (computeFromBlock (getPollState sd) (hexToNumber hex) (lookbackBlocks p))
           (hexToNumber hex) = Inr []
       \<and> fst (poll p creds r sd) = Inr None
       \<and> sd_lastBlockNumber (snd (poll p creds r sd)) = Some (hexToNumber hex)
       \<and> sd_lastTimestamp (snd (poll p creds r sd)) = Some (Num (Date_now r))"
proof -
  let ?fromB = "computeFromBlock (getPollState sd) (hexToNumber hex) (lookbackBlocks p)"
  have "\<exists>e. executeEwScanRequest (ewScan r ''/v1/logs''
           \<lparr> from_block = ?fromB, to_block = hexToNumber hex, topic = ''AssetRegistered'' \<rparr>) = Inl e"
    by (cases thrown) (simp_all add: assms(4) executeEwScanRequest_def)
  then have d: "pollAssetRegistered p creds r ?fromB (hexToNumber hex) = Inr []"
    by (auto simp: pollAssetRegistered_def)
  then have "dispatch (triggerType p) p creds r ?fromB (hexToNumber hex) = Inr []"
    by (simp add: assms(1))
  from poll_dispatch_success [OF assms(2) assms(3) this] d show ?thesis
    by (simp add: newEventsOf_def)
qed

lemma assetRegistered_window:
  "\<not> number_gt (computeFromBlock (getPollState example_staticData) (hexToNumber ''0x1c2'')
        (lookbackBlocks assetRegistered_parameters)) (hexToNumber ''0x1c2'')"
  by (simp add: hexToNumber_0x1c2 assetRegistered_parameters_def example_lookback example_from)

theorem assetRegistered_indexer_failure_witness:
  "ewScan example_remote ''/v1/logs''
      \<lparr> from_block = Num 401, to_block = Num 450, topic = ''AssetRegistered'' \<rparr>
     = Rejected (Some ''connect ECONNREFUSED'')
   \<and> pollAssetRegistered assetRegistered_parameters example_credentials example_remote
        (Num 401) (Num 450) = Inr []
   \<and> fst (poll assetRegistered_parameters example_credentials example_remote example_staticData)
       = Inr None
   \<and> sd_lastBlockNumber
       (snd (poll assetRegistered_parameters example_credentials example_remote example_staticData))
       = Some (Num 450)
   \<and> sd_lastTimestamp
       (snd (poll assetRegistered_parameters example_credentials example_remote example_staticData))
       = Some (Num 1700000000000)"
proof -
  have t: "triggerType assetRegistered_parameters = assetRegistered"
    by (simp add: assetRegistered_parameters_def)
  have s: "ewScan example_remote path q = Rejected (Some ''connect ECONNREFUSED'')" for path q
    by (simp add: example_remote_def)
  have f: "computeFromBlock (getPollState example_staticData) (Num 450)
        (lookbackBlocks assetRegistered_parameters) = Num 401"
    by (simp add: hexToNumber_0x1c2 assetRegistered_parameters_def example_lookback example_from)
  have d: "Date_now example_remote = 1700000000000"
    by (simp add: example_remote_def)
  from assetRegistered_indexer_failure [OF t example_height assetRegistered_window s,
      of example_credentials]
  show ?thesis
    by (simp add: f hexToNumber_0x1c2 s d)
qed

section \<open>Event topics\<close>

lemma certificateIssued_eventTopic_text:
  "certificateIssued_eventTopic
     = ''0xCertificateIssued00000000000000000000000000000000000000000000000''"
  by code_simp

lemma isValidAddress_nonempty: "isValidAddress f \<Longrightarrow> f \<noteq> []"
  by (auto simp: isValidAddress_def)

text \<open>
  C6. A topic passed to \<^verbatim>\<open>eth_getLogs\<close> is to be a 32-byte hash, \<^verbatim>\<open>0x\<close> and 64 hexadecimal
  digits. The topic of the certificate-issued decoder is the event name padded with
  zeros; it has the length of a hash and is none, since \<^verbatim>\<open>r\<close> is no hexadecimal digit.
\<close>

theorem certificateIssued_topic_not_a_hash:
  "topics (certificateIssued_request p fromB toB) = [certificateIssued_eventTopic]
   \<and> certificateIssued_eventTopic
       = ''0xCertificateIssued00000000000000000000000000000000000000000000000''
   \<and> \<not> isDigitOf 16 (CHR ''r'')
   \<and> \<not> isValidTxHash certificateIssued_eventTopic"
proof -
  have r: "\<not> isDigitOf 16 (CHR ''r'')"
    by (simp add: js_defs)
  have "\<not> isValidTxHash ''0xCertificateIssued00000000000000000000000000000000000000000000000''"
    using r by (simp add: isValidTxHash_def)
  with r show ?thesis
    by (simp add: certificateIssued_request_def certificateIssued_eventTopic_text)
qed

text \<open>The topics of the other three log decoders are hashes.\<close>

lemma other_topics_are_hashes:
  "isValidTxHash certificateTransferred_eventTopic"
  "isValidTxHash didCreated_eventTopic"
  "isValidTxHash didUpdated_eventTopic"
  by (simp_all add: isValidTxHash_def certificateTransferred_eventTopic_def
        didCreated_eventTopic_def didUpdated_eventTopic_def js_defs)

section \<open>Address filters\<close>

text \<open>
  C9. With a valid filter address the certificate-transferred decoder emits exactly the
  logs whose sender or recipient equals the filter once both sides are lower-cased. In
  the instance after it a transfer from \<^verbatim>\<open>0xAA..\<close> to \<^verbatim>\<open>0xBB..\<close> is emitted under the filter
  \<^verbatim>\<open>0xbb..\<close> and suppressed under the filter \<^verbatim>\<open>0xCC..\<close>.
\<close>

theorem certificateTransferred_address_filter:
  assumes "isValidAddress (filterAddress p)"
    and "executeRpcRequest (eth_getLogs r (certificateTransferred_request p fromB toB)) = Inr logs"
  shows "pollCertificateTransferred p creds r fromB toB
           = Inr (map (certificateTransferred_event creds r)
                   (filter (\<lambda>l. toLowerCase (topicAddress (log_topics l) 2)
                                   = toLowerCase (filterAddress p)
                                 \<or> toLowerCase (topicAddress (log_topics l) 3)
                                   = toLowerCase (filterAddress p))
                      logs))"
proof -
  have f: "filterApplies (filterAddress p)"
    using assms(1) by (simp add: filterApplies_def isValidAddress_nonempty)
  have "List.map_filter (certificateTransferred_log p creds r) ls
          = map (certificateTransferred_event creds r)
              (filter (\<lambda>l. toLowerCase (topicAddress (log_topics l) 2)
                               = toLowerCase (filterAddress p)
                             \<or> toLowerCase (topicAddress (log_topics l) 3)
                               = toLowerCase (filterAddress p))
                 ls)" for ls
    by (induction ls) (simp_all add: List.map_filter_simps certificateTransferred_log_def f)
  then show ?thesis
    by (simp add: pollCertificateTransferred_def assms(2))
qed

lemma transfer_log_from:
  "topicAddress (log_topics (transfer_log h)) 2 = ''0xAAAAAAAAAAAAAAAAAAAAAAAAAAAAAAAAAAAAAAAA''"
  by (simp add: transfer_log_def topicAddress_def topicPresent_def slice_last_def)

lemma transfer_log_to:
  "topicAddress (log_topics (transfer_log h)) 3 = ''0xBBBBBBBBBBBBBBBBBBBBBBBBBBBBBBBBBBBBBBBB''"
  by (simp add: transfer_log_def topicAddress_def topicPresent_def slice_last_def)

lemmas lower_defs = toLowerCase_def toLowerCaseChar_def upperCaseLetters_def lowerCaseLetters_def

lemma lowercase_b_valid: "isValidAddress (filterAddress lowercase_b_parameters)"
  by (simp add: lowercase_b_parameters_def isValidAddress_def js_defs)

lemma uppercase_C_valid: "isValidAddress (filterAddress uppercase_C_parameters)"
  by (simp add: uppercase_C_parameters_def isValidAddress_def js_defs)

lemma lowercase_b_matches:
  "toLowerCase (topicAddress (log_topics (transfer_log h)) 3)
     = toLowerCase (filterAddress lowercase_b_parameters)"
  by (simp add: transfer_log_to lowercase_b_parameters_def lower_defs)

lemma uppercase_C_differs:
  "toLowerCase (topicAddress (log_topics (transfer_log h)) 2)
     \<noteq> toLowerCase (filterAddress uppercase_C_parameters)"
  "toLowerCase (topicAddress (log_topics (transfer_log h)) 3)
     \<noteq> toLowerCase (filterAddress uppercase_C_parameters)"
  by (simp_all add: transfer_log_from transfer_log_to uppercase_C_parameters_def lower_defs)

theorem certificateTransferred_address_filter_witness:
  "from_address (certificateTransferred_event example_credentials example_remote
                   (transfer_log txHash_new)) = ''0xAAAAAAAAAAAAAAAAAAAAAAAAAAAAAAAAAAAAAAAA''
   \<and> to_address (certificateTransferred_event example_credentials example_remote
                   (transfer_log txHash_new)) = ''0xBBBBBBBBBBBBBBBBBBBBBBBBBBBBBBBBBBBBBBBB''
   \<and> filterAddress lowercase_b_parameters = ''0xbbbbbbbbbbbbbbbbbbbbbbbbbbbbbbbbbbbbbbbb''
   \<and> pollCertificateTransferred lowercase_b_parameters example_credentials example_remote
        (Num 401) (Num 450)
       = Inr [certificateTransferred_event example_credentials example_remote (transfer_log txHash_old),
              certificateTransferred_event example_credentials example_remote (transfer_log txHash_new)]
   \<and> filterAddress uppercase_C_parameters = ''0xCCCCCCCCCCCCCCCCCCCCCCCCCCCCCCCCCCCCCCCC''
   \<and> pollCertificateTransferred uppercase_C_parameters example_credentials example_remote
        (Num 401) (Num 450) = Inr []"
proof -
  from certificateTransferred_address_filter [OF lowercase_b_valid example_logs,
      of example_credentials "Num 401" "Num 450"]
  have a: "pollCertificateTransferred lowercase_b_parameters example_credentials example_remote
        (Num 401) (Num 450)
       = Inr [certificateTransferred_event example_credentials example_remote (transfer_log txHash_old),
              certificateTransferred_event example_credentials example_remote (transfer_log txHash_new)]"
    by (simp add: lowercase_b_matches)
  from certificateTransferred_address_filter [OF uppercase_C_valid example_logs,
      of example_credentials "Num 401" "Num 450"]
  have b: "pollCertificateTransferred uppercase_C_parameters example_credentials example_remote
        (Num 401) (Num 450) = Inr []"
    by (simp add: uppercase_C_differs)
  from a b show ?thesis
    by (simp add: certificateTransferred_event_def transfer_log_from transfer_log_to
          lowercase_b_parameters_def uppercase_C_parameters_def)
qed

lemma invalid_filter_not_applied: "\<not> isValidAddress f \<Longrightarrow> \<not> filterApplies f"
  by (simp add: filterApplies_def)

lemma empty_filter_not_applied: "\<not> filterApplies []"
  by (simp add: filterApplies_def)

lemma decoders_without_filter:
  assumes "\<not> filterApplies (filterAddress p)"
  shows "certificateIssued_log p creds r = (\<lambda>l. Some (certificateIssued_event creds r l))"
    and "certificateTransferred_log p creds r = (\<lambda>l. Some (certificateTransferred_event creds r l))"
    and "didCreated_log p creds r
           = (\<lambda>l. if toLowerCase (topicAddress (log_topics l) 1) \<noteq> toLowerCase (dataOwner l)
                   then None else Some (didCreated_event creds r l))"
    and "didUpdated_log p creds r = (\<lambda>l. Some (didUpdated_event creds r l))"
    and "assetRegistered_log p creds r = (\<lambda>s. Some (assetRegistered_event creds r s))"
    and "largeTransfer_tx p creds w blk
           = (\<lambda>tx. case BigInt_string (valueOrZero tx) of
                      Inl e \<Rightarrow> Inl e
                    | Inr v \<Rightarrow>
                        if v < w then Inr None
                        else (case weiToUnits (intToString 10 v) of
                                Inl e \<Rightarrow> Inl e
                              | Inr valueUnits \<Rightarrow>
                                  Inr (Some (LargeTransferEvent (tx_from tx) (tx_to tx)
                                     (intToString 10 v) (ewt valueUnits) (transferThreshold p)
                                     (hexToNumber (block_number blk)) (tx_hash tx)
                                     (name (getNetworkConfig (network creds)))
                                     (number_times (hexToNumber (block_timestamp blk)) (Num 1000))))))"
  using assms
  by (auto simp: certificateIssued_log_def certificateTransferred_log_def didCreated_log_def
        didUpdated_log_def assetRegistered_log_def largeTransfer_tx_def Let_def fun_eq_iff
        split: sum.splits)

lemma dispatch_without_filter:
  assumes "\<not> filterApplies (filterAddress p)"
  shows "dispatch t p creds r fromB toB = dispatch t (p \<lparr> filterAddress := [] \<rparr>) creds r fromB toB"
proof -
  have e: "\<not> filterApplies (filterAddress (p \<lparr> filterAddress := [] \<rparr>))"
    by (simp add: empty_filter_not_applied)
  have l: "largeTransfer_tx p creds w = largeTransfer_tx (p \<lparr> filterAddress := [] \<rparr>) creds w" for w
    by (auto simp: fun_eq_iff decoders_without_filter(6) [OF assms]
          decoders_without_filter(6) [OF e] split: sum.splits)
  show ?thesis
    by (cases t)
       (simp_all add: pollCertificateIssued_def pollCertificateTransferred_def pollDIDCreated_def
          pollDIDUpdated_def pollAssetRegistered_def pollLargeTransfer_def l
          decoders_without_filter(1-5) [OF assms] decoders_without_filter(1-5) [OF e]
          certificateIssued_request_def certificateTransferred_request_def thresholdWei_def
          cong: sum.case_cong number.case_cong)
qed

lemma abbreviated_filter_invalid:
  "\<not> isValidAddress (filterAddress abbreviated_filter_parameters)"
  by (simp add: abbreviated_filter_parameters_def isValidAddress_def)

lemma abbreviated_filter_removed:
  "abbreviated_filter_parameters \<lparr> filterAddress := [] \<rparr> = example_parameters"
  by (simp add: abbreviated_filter_parameters_def example_parameters_def)

section \<open>The threshold of the large-transfer decoder\<close>

text \<open>\<^verbatim>\<open>BigInt(v.toString())\<close> is \<open>v\<close> again, so \<^verbatim>\<open>weiToUnits\<close> cannot raise inside the
  loop over the transactions.\<close>

lemma digitChars_decimal:
  assumes "d < 10"
  shows "digitValue 10 (digitChars ! d) = Some d \<and> digitChars ! d \<in> decimalChars"
proof -
  from assms have "d = 0 \<or> d = 1 \<or> d = 2 \<or> d = 3 \<or> d = 4 \<or> d = 5 \<or> d = 6 \<or> d = 7 \<or> d = 8 \<or> d = 9"
    by arith
  then show ?thesis
    by (elim disjE; simp only: decimalChars_def; code_simp)
qed

lemma digitsValue_snoc:
  "digitsValue radix (ds @ [c])
     = digitsValue radix ds * radix + (case digitValue radix c of Some d \<Rightarrow> d | None \<Rightarrow> 0)"
  by (simp add: digitsValue_def)

lemma natToString_decimal:
  "natToString 10 n \<noteq> []
   \<and> set (natToString 10 n) \<subseteq> decimalChars
   \<and> list_all (isDigitOf 10) (natToString 10 n)
   \<and> digitsValue 10 (natToString 10 n) = n"
proof (induction "10::nat" n rule: natToString.induct)
  case (1 n)
  show ?case
  proof (cases "n < 10")
    case True
    then show ?thesis
      using digitChars_decimal [of n]
      by (simp add: natToString.simps [of 10 n] isDigitOf_def digitsValue_def)
  next
    case False
    then have ih: "natToString 10 (n div 10) \<noteq> []
        \<and> set (natToString 10 (n div 10)) \<subseteq> decimalChars
        \<and> list_all (isDigitOf 10) (natToString 10 (n div 10))
        \<and> digitsValue 10 (natToString 10 (n div 10)) = n div 10"
      using 1 by simp
    have m: "n mod 10 < 10" by simp
    from False ih digitChars_decimal [OF m] show ?thesis
      by (simp add: natToString.simps [of 10 n] isDigitOf_def digitsValue_snoc)
  qed
qed

lemma decimalChars_plain:
  assumes "c \<in> decimalChars"
  shows "\<not> isWhiteSpace c" "c \<noteq> CHR ''-''" "c \<noteq> CHR ''+''"
    "c \<noteq> CHR ''x''" "c \<noteq> CHR ''X''" "c \<noteq> CHR ''o''" "c \<noteq> CHR ''O''"
    "c \<noteq> CHR ''b''" "c \<noteq> CHR ''B''"
  using assms by (auto simp: decimalChars_def isWhiteSpace_def)

lemma trim_plain:
  assumes "s \<noteq> []" "\<not> isWhiteSpace (hd s)" "\<not> isWhiteSpace (last s)"
  shows "trim s = s"
proof -
  from assms have a: "dropWhile isWhiteSpace s = s"
    by (cases s) auto
  from assms have "rev s \<noteq> []" "\<not> isWhiteSpace (hd (rev s))"
    by (auto simp: hd_rev)
  then have "dropWhile isWhiteSpace (rev s) = rev s"
    by (cases "rev s") auto
  with a show ?thesis by (simp add: trim_def)
qed

lemma radixOfPrefix_decimal:
  assumes "set s \<subseteq> decimalChars"
  shows "radixOfPrefix s = None"
proof (cases s)
  case Nil
  then show ?thesis by (simp add: radixOfPrefix_def)
next
  case (Cons c t)
  show ?thesis
  proof (cases t)
    case Nil
    with Cons show ?thesis by (simp add: radixOfPrefix_def)
  next
    case (Cons d u)
    with \<open>s = c # t\<close> assms have "d \<in> decimalChars" by simp
    from decimalChars_plain [OF this] Cons \<open>s = c # t\<close> show ?thesis
      by (simp add: radixOfPrefix_def)
  qed
qed

lemma BigInt_string_natToString: "BigInt_string (natToString 10 n) = Inr (int n)"
proof -
  let ?s = "natToString 10 n"
  have d: "?s \<noteq> []" "set ?s \<subseteq> decimalChars" "list_all (isDigitOf 10) ?s"
      "digitsValue 10 ?s = n"
    using natToString_decimal [of n] by simp_all
  from d have e: "hd ?s \<in> decimalChars" "last ?s \<in> decimalChars"
    by (auto simp: subset_iff)
  then have t: "trim ?s = ?s"
    using d(1) by (intro trim_plain) (auto dest: decimalChars_plain(1))
  have s: "stripSign ?s = (False, ?s)"
    using d(1) e(1) decimalChars_plain(2,3) [of "hd ?s"]
    by (cases ?s) (auto simp: stripSign_def)
  show ?thesis
    using d by (simp add: BigInt_string_def t s radixOfPrefix_decimal allDigits_def)
qed

lemma BigInt_string_intToString: "BigInt_string (intToString 10 v) = Inr v"
proof (cases "v < 0")
  case False
  then show ?thesis by (simp add: intToString_def BigInt_string_natToString)
next
  case True
  let ?s = "natToString 10 (nat (- v))"
  have d: "?s \<noteq> []" "set ?s \<subseteq> decimalChars" "list_all (isDigitOf 10) ?s"
      "digitsValue 10 ?s = nat (- v)"
    using natToString_decimal [of "nat (- v)"] by simp_all
  from d have "last ?s \<in> decimalChars"
    by (auto simp: subset_iff)
  then have "\<not> isWhiteSpace (last (CHR ''-'' # ?s))"
    using d(1) decimalChars_plain(1) by simp
  then have t: "trim (CHR ''-'' # ?s) = CHR ''-'' # ?s"
    by (intro trim_plain) (simp_all add: isWhiteSpace_def)
  have r: "radixOfPrefix (CHR ''-'' # ?s) = None"
    by (cases ?s) (simp_all add: radixOfPrefix_def)
  have s: "stripSign (CHR ''-'' # ?s) = (True, ?s)"
    by (simp add: stripSign_def)
  show ?thesis
    using True d by (simp add: intToString_def BigInt_string_def t r s allDigits_def)
qed

lemma weiToUnits_intToString:
  "weiToUnits (intToString 10 v)
     = Inr \<lparr> wei = intToString 10 v, gwei = intToString 10 (bigint_div v (10 ^ 9)),
             ewt = formatEwt v (10 ^ 18) \<rparr>"
proof -
  have g: "BigInt_string WEI_UNITS_gwei = Inr (10 ^ 9)"
    by (simp add: js_defs WEI_UNITS_gwei_def)
  have e: "BigInt_string WEI_UNITS_ewt = Inr (10 ^ 18)"
    by (simp add: js_defs WEI_UNITS_ewt_def)
  show ?thesis
    by (simp add: weiToUnits_def BigInt_string_intToString g e)
qed

text \<open>
  With a whole threshold \<open>T\<close> the decoder compares against \<open>T * 10^18\<close> base units: a
  transaction that passes the address filter and whose value reads as \<open>v\<close> is pushed
  when \<open>T * 10^18 \<le> v\<close> and skipped when \<open>v < T * 10^18\<close>; so the value \<open>T * 10^18\<close> is
  included and \<open>T * 10^18 - 1\<close> is excluded.
\<close>

theorem largeTransfer_threshold_cutoff:
  assumes "transferThreshold p = Finite (of_int T)"
    and "BigInt_string (valueOrZero tx) = Inr v"
    and "\<not> filterApplies (filterAddress p)
         \<or> toLowerCase (tx_from tx) = toLowerCase (filterAddress p)
         \<or> toLowerOrEmpty tx = toLowerCase (filterAddress p)"
  shows "thresholdWei p = Inr (T * 10 ^ 18)
       \<and> (T * 10 ^ 18 \<le> v \<longrightarrow>
            (\<exists>ev. largeTransfer_tx p creds (T * 10 ^ 18) blk tx = Inr (Some ev)
                  \<and> transactionHash ev = tx_hash tx))
       \<and> (v < T * 10 ^ 18 \<longrightarrow> largeTransfer_tx p creds (T * 10 ^ 18) blk tx = Inr None)
       \<and> (v = T * 10 ^ 18 \<longrightarrow>
            (\<exists>ev. largeTransfer_tx p creds (T * 10 ^ 18) blk tx = Inr (Some ev)))
       \<and> (v = T * 10 ^ 18 - 1 \<longrightarrow> largeTransfer_tx p creds (T * 10 ^ 18) blk tx = Inr None)"
proof -
  have w: "thresholdWei p = Inr (T * 10 ^ 18)"
    by (simp add: thresholdWei_def assms(1))
  have lo: "largeTransfer_tx p creds (T * 10 ^ 18) blk tx = Inr None" if "v < T * 10 ^ 18"
    using that by (simp add: largeTransfer_tx_def assms(2))
  have hi: "\<exists>ev. largeTransfer_tx p creds (T * 10 ^ 18) blk tx = Inr (Some ev)
                  \<and> transactionHash ev = tx_hash tx" if "T * 10 ^ 18 \<le> v"
    using that assms(3)
    by (auto simp: largeTransfer_tx_def assms(2) weiToUnits_intToString)
  from w lo hi show ?thesis
    by auto
qed


lemma forBatches_single: "forBatches step b b events = step b events"
proof -
  have "forBlocks step (b + 1) b evs = evs" for evs
    by (subst forBlocks.simps) simp
  then have "forBlocks step b b evs = step b evs" for evs
    by (subst forBlocks.simps) simp
  moreover have "forBatches step (b + batchSize) b evs = evs" for evs
    by (subst forBatches.simps) (simp add: batchSize_def)
  ultimately show ?thesis
    by (subst forBatches.simps) (simp add: batchSize_def)
qed

lemma numberToHex_450: "numberToHex (Num 450) = ''0x1c2''"
  by (simp add: numberToHex_def intToString_def natToString.simps [of 16 450]
        natToString.simps [of 16 28] natToString.simps [of 16 "Suc 0"] digitChars_def)

lemma value_at_threshold:
  "BigInt_string (valueOrZero transfer_at_threshold) = Inr (100 * 10 ^ 18)"
  by (simp add: valueOrZero_def transfer_at_threshold_def js_defs)

lemma value_below_threshold:
  "BigInt_string (valueOrZero transfer_below_threshold) = Inr (100 * 10 ^ 18 - 1)"
  by (simp add: valueOrZero_def transfer_below_threshold_def js_defs)

lemma largeTransfer_parameters_threshold:
  "transferThreshold largeTransfer_parameters = Finite (of_int 100)"
  by (simp add: largeTransfer_parameters_def example_parameters_def)

lemma largeTransfer_parameters_filter:
  "\<not> filterApplies (filterAddress largeTransfer_parameters)
   \<or> toLowerCase (tx_from tx) = toLowerCase (filterAddress largeTransfer_parameters)
   \<or> toLowerOrEmpty tx = toLowerCase (filterAddress largeTransfer_parameters)"
  by (simp add: largeTransfer_parameters_def example_parameters_def filterApplies_def)

lemma block_remote_height: "executeRpcRequest (eth_blockNumber block_remote) = Inr ''0x1c2''"
  by (simp add: block_remote_def example_remote_def executeRpcRequest_def)

lemma block_remote_block:
  "executeRpcRequest (eth_getBlockByNumber block_remote ''0x1c2'' True) = Inr (Some example_block)"
  by (simp add: block_remote_def executeRpcRequest_def)

lemma recent_window:
  "computeFromBlock (getPollState recent_staticData) (Num 450)
     (lookbackBlocks largeTransfer_parameters) = Num 450"
  by (simp add: computeFromBlock_def getPollState_def recent_staticData_def orZero_def)

theorem largeTransfer_threshold_cutoff_witness:
  "transferThreshold largeTransfer_parameters = Finite 100
   \<and> thresholdWei largeTransfer_parameters = Inr (100 * 10 ^ 18)
   \<and> BigInt_string (valueOrZero transfer_below_threshold) = Inr (100 * 10 ^ 18 - 1)
   \<and> largeTransfer_tx largeTransfer_parameters example_credentials (100 * 10 ^ 18) example_block
        transfer_below_threshold = Inr None
   \<and> BigInt_string (valueOrZero transfer_at_threshold) = Inr (100 * 10 ^ 18)
   \<and> map_sum id (map_option transactionHash)
        (largeTransfer_tx largeTransfer_parameters example_credentials (100 * 10 ^ 18) example_block
           transfer_at_threshold) = Inr (Some txHash_new)
   \<and> block_transactions example_block = Some [transfer_below_threshold, transfer_at_threshold]
   \<and> map_sum id (map_option (map transactionHash))
        (fst (poll largeTransfer_parameters example_credentials block_remote recent_staticData))
       = Inr (Some [txHash_new])"
proof -
  let ?body = "largeTransfer_tx largeTransfer_parameters example_credentials 100000000000000000000"
  note below = largeTransfer_threshold_cutoff [OF largeTransfer_parameters_threshold
      value_below_threshold largeTransfer_parameters_filter, of example_credentials example_block]
  note at = largeTransfer_threshold_cutoff [OF largeTransfer_parameters_threshold
      value_at_threshold largeTransfer_parameters_filter, of example_credentials example_block]
  from below have w: "thresholdWei largeTransfer_parameters = Inr 100000000000000000000"
    by simp
  from below have lo: "?body example_block transfer_below_threshold = Inr None"
    by simp
  from at have "\<exists>ev. ?body example_block transfer_at_threshold = Inr (Some ev)
      \<and> transactionHash ev = tx_hash transfer_at_threshold"
    by simp
  then obtain ev where hi: "?body example_block transfer_at_threshold = Inr (Some ev)"
      and h: "transactionHash ev = tx_hash transfer_at_threshold"
    by blast
  have h': "transactionHash ev = txHash_new"
    by (simp add: h transfer_at_threshold_def)
  have txs: "block_transactions example_block
      = Some [transfer_below_threshold, transfer_at_threshold]"
    by (simp add: example_block_def)
  have "scanBlock block_remote ?body 450 [] = [ev]"
    by (simp add: scanBlock_def numberToHex_450 block_remote_block txs lo hi)
  then have d: "dispatch (triggerType largeTransfer_parameters) largeTransfer_parameters
      example_credentials block_remote (Num 450) (Num 450) = Inr [ev]"
    by (simp add: largeTransfer_parameters_def pollLargeTransfer_def w [unfolded largeTransfer_parameters_def]
          forBatches_single)
  have g: "\<not> number_gt (computeFromBlock (getPollState recent_staticData) (hexToNumber ''0x1c2'')
        (lookbackBlocks largeTransfer_parameters)) (hexToNumber ''0x1c2'')"
    by (simp add: hexToNumber_0x1c2 recent_window)
  have d': "dispatch (triggerType largeTransfer_parameters) largeTransfer_parameters
      example_credentials block_remote
      (computeFromBlock (getPollState recent_staticData) (hexToNumber ''0x1c2'')
        (lookbackBlocks largeTransfer_parameters)) (hexToNumber ''0x1c2'') = Inr [ev]"
    by (simp add: hexToNumber_0x1c2 recent_window d)
  have n: "newEventsOf (getPollState recent_staticData) [ev] = [ev]"
    by (simp add: newEventsOf_def getPollState_def recent_staticData_def)
  have e2e: "map_sum id (map_option (map transactionHash))
        (fst (poll largeTransfer_parameters example_credentials block_remote recent_staticData))
       = Inr (Some [txHash_new])"
    by (simp add: poll_dispatch_success [OF block_remote_height g d'] n h')
  from w lo hi h' txs e2e show ?thesis
    by (simp add: largeTransfer_parameters_threshold value_below_threshold value_at_threshold)
qed

lemma half_ewt_value:
  "BigInt_string (valueOrZero half_ewt_transfer) = Inr (5 * 10 ^ 17)"
  by (simp add: valueOrZero_def half_ewt_transfer_def js_defs)

lemma half_ewt_thresholdWei:
  "thresholdWei half_ewt_parameters
     = Inl (RangeError ''The number cannot be converted to a BigInt because it is not an integer'')"
proof -
  have "\<lfloor>1 / 2 :: rat\<rfloor> = 0"
    by (rule floor_unique) simp_all
  then show ?thesis
    by (simp add: thresholdWei_def half_ewt_parameters_def)
qed

lemma half_ewt_height: "executeRpcRequest (eth_blockNumber half_ewt_remote) = Inr ''0x1c2''"
  by (simp add: half_ewt_remote_def example_remote_def executeRpcRequest_def)

lemma half_ewt_window:
  "\<not> number_gt (computeFromBlock (getPollState recent_staticData) (hexToNumber ''0x1c2'')
        (lookbackBlocks half_ewt_parameters)) (hexToNumber ''0x1c2'')"
  by (simp add: hexToNumber_0x1c2 computeFromBlock_def getPollState_def recent_staticData_def
        orZero_def)

text \<open>
  C7. The cutoff is to be the threshold times \<open>10^18\<close> base units, a transaction of exactly
  that value being included. With the threshold 0.5 the cutoff is \<open>5 * 10^17\<close>, but
  \<^verbatim>\<open>BigInt(threshold)\<close> raises \<^verbatim>\<open>RangeError\<close> before any block is read: the decoder and the
  whole poll fail, and the transfer of \<open>5 * 10^17\<close> base units is never emitted.
\<close>

theorem largeTransfer_fractional_threshold_aborts:
  "transferThreshold half_ewt_parameters = Finite (1 / 2)
   \<and> (1 / 2 :: rat) * 10 ^ 18 = of_int (5 * 10 ^ 17)
   \<and> BigInt_string (valueOrZero half_ewt_transfer) = Inr (5 * 10 ^ 17)
   \<and> thresholdWei half_ewt_parameters
       = Inl (RangeError ''The number cannot be converted to a BigInt because it is not an integer'')
   \<and> pollLargeTransfer half_ewt_parameters example_credentials half_ewt_remote (Num 450) (Num 450)
       = Inl (RangeError ''The number cannot be converted to a BigInt because it is not an integer'')
   \<and> poll half_ewt_parameters example_credentials half_ewt_remote recent_staticData
       = (Inl (NodeOperationError
                 ''Poll failed: The number cannot be converted to a BigInt because it is not an integer''),
          recent_staticData)"
proof -
  have t: "transferThreshold half_ewt_parameters = Finite (1 / 2)"
    by (simp add: half_ewt_parameters_def)
  have d: "pollLargeTransfer half_ewt_parameters example_credentials half_ewt_remote fromB toB
       = Inl (RangeError ''The number cannot be converted to a BigInt because it is not an integer'')"
    for fromB toB
    by (simp add: pollLargeTransfer_def half_ewt_thresholdWei)
  have g: "triggerType half_ewt_parameters = largeTransfer"
    by (simp add: half_ewt_parameters_def largeTransfer_parameters_def)
  have "dispatch (triggerType half_ewt_parameters) half_ewt_parameters example_credentials
      half_ewt_remote
      (computeFromBlock (getPollState recent_staticData) (hexToNumber ''0x1c2'')
        (lookbackBlocks half_ewt_parameters)) (hexToNumber ''0x1c2'')
      = Inl (RangeError ''The number cannot be converted to a BigInt because it is not an integer'')"
    by (simp add: g d)
  from poll_dispatch_failure [OF half_ewt_height half_ewt_window this]
  have p: "poll half_ewt_parameters example_credentials half_ewt_remote recent_staticData
       = (Inl (NodeOperationError
                 ''Poll failed: The number cannot be converted to a BigInt because it is not an integer''),
          recent_staticData)"
    by (simp add: pollFailed_def)
  have a: "(1 / 2 :: rat) * 10 ^ 18 = of_int (5 * 10 ^ 17)"
    by simp
  from t a half_ewt_value half_ewt_thresholdWei d p show ?thesis
    by (intro conjI)
qed

text \<open>The helper \<^verbatim>\<open>ewtToWei\<close> converts the same amount without failing.\<close>

lemma ewtToWei_half: "ewtToWei ''0.5'' = Inr (intToString 10 (5 * 10 ^ 17))"
proof -
  have w: "BigInt_string ''0'' = Inr 0"
    by (simp add: js_defs)
  have u: "BigInt_string WEI_UNITS_ewt = Inr (10 ^ 18)"
    by (simp add: js_defs WEI_UNITS_ewt_def)
  have d: "BigInt_string ''500000000000000000'' = Inr (5 * 10 ^ 17)"
    by (simp add: js_defs)
  have s: "slice 0 18 (padEnd 18 (CHR ''0'') ''5'') = ''500000000000000000''"
    by code_simp
  show ?thesis
    by (simp add: ewtToWei_def s w u d)
qed

section \<open>Invalid address filters\<close>

lemma forBlocks_fold: "forBlocks step b endBlock events = fold step [b..endBlock] events"
proof (induction step b endBlock events rule: forBlocks.induct)
  case (1 step b endBlock events)
  show ?case
  proof (cases "b \<le> endBlock")
    case True
    with 1 have "forBlocks step (b + 1) endBlock (step b events)
        = fold step [b + 1..endBlock] (step b events)"
      by simp
    with True show ?thesis
      by (subst forBlocks.simps) (simp add: upto_rec1 [of b endBlock])
  next
    case False
    then show ?thesis
      by (subst forBlocks.simps) simp
  qed
qed

lemma forBatches_fold: "forBatches step block toB events = fold step [block..toB] events"
proof (induction step block toB events rule: forBatches.induct)
  case (1 step block toB events)
  show ?case
  proof (cases "block \<le> toB")
    case True
    let ?m = "min (block + batchSize - 1) toB"
    from True have s: "[block..toB] = [block..?m] @ [?m + 1..toB]"
      by (intro upto_split2) (simp_all add: batchSize_def)
    have r: "[?m + 1..toB] = [block + batchSize..toB]"
      by (cases "block + batchSize - 1 \<le> toB") (simp_all add: min_def)
    from 1 [OF True] have "forBatches step (block + batchSize) toB (forBlocks step block ?m events)
        = fold step [block + batchSize..toB] (fold step [block..?m] events)"
      by (simp add: forBlocks_fold)
    with True show ?thesis
      by (subst forBatches.simps) (simp add: s r forBlocks_fold)
  next
    case False
    then show ?thesis
      by (subst forBatches.simps) simp
  qed
qed

lemma largeTransfer_tx_unfiltered:
  assumes "\<not> filterApplies (filterAddress p)"
    and "BigInt_string (valueOrZero tx) = Inr v"
  shows "largeTransfer_tx p creds w blk tx
           = (if v < w then Inr None
              else Inr (Some (LargeTransferEvent (tx_from tx) (tx_to tx) (intToString 10 v)
                                (formatEwt v (10 ^ 18)) (transferThreshold p)
                                (hexToNumber (block_number blk)) (tx_hash tx)
                                (name (getNetworkConfig (network creds)))
                                (number_times (hexToNumber (block_timestamp blk)) (Num 1000)))))"
  using assms by (simp add: largeTransfer_tx_def weiToUnits_intToString)

lemma forTransactions_unfiltered:
  assumes "\<not> filterApplies (filterAddress p)"
    and "\<forall>tx \<in> set txs. \<exists>v. BigInt_string (valueOrZero tx) = Inr v"
  shows "\<exists>evs. forTransactions (largeTransfer_tx p creds w blk) txs events = events @ evs
           \<and> map transactionHash evs = map tx_hash (filter (reachesThreshold w) txs)
           \<and> map from_address evs = map tx_from (filter (reachesThreshold w) txs)
           \<and> map to_option evs = map tx_to (filter (reachesThreshold w) txs)"
  using assms(2)
proof (induction txs arbitrary: events)
  case Nil
  then show ?case by simp
next
  case (Cons tx txs)
  then obtain v where v: "BigInt_string (valueOrZero tx) = Inr v"
    by auto
  note b = largeTransfer_tx_unfiltered [OF assms(1) v, of creds w blk]
  have rt: "reachesThreshold w tx \<longleftrightarrow> w \<le> v"
    by (simp add: reachesThreshold_def v)
  show ?case
  proof (cases "v < w")
    case True
    from Cons obtain evs where
      "forTransactions (largeTransfer_tx p creds w blk) txs events = events @ evs
           \<and> map transactionHash evs = map tx_hash (filter (reachesThreshold w) txs)
           \<and> map from_address evs = map tx_from (filter (reachesThreshold w) txs)
           \<and> map to_option evs = map tx_to (filter (reachesThreshold w) txs)"
      by (meson list.set_intros(2))
    with True b rt show ?thesis
      by simp
  next
    case False
    let ?ev = "LargeTransferEvent (tx_from tx) (tx_to tx) (intToString 10 v)
                                (formatEwt v (10 ^ 18)) (transferThreshold p)
                                (hexToNumber (block_number blk)) (tx_hash tx)
                                (name (getNetworkConfig (network creds)))
                                (number_times (hexToNumber (block_timestamp blk)) (Num 1000))"
    from Cons obtain evs where
      "forTransactions (largeTransfer_tx p creds w blk) txs (events @ [?ev]) = (events @ [?ev]) @ evs
           \<and> map transactionHash evs = map tx_hash (filter (reachesThreshold w) txs)
           \<and> map from_address evs = map tx_from (filter (reachesThreshold w) txs)
           \<and> map to_option evs = map tx_to (filter (reachesThreshold w) txs)"
      by (meson list.set_intros(2))
    with False b rt show ?thesis
      by (intro exI [of _ "?ev # evs"]) simp
  qed
qed


lemma log_decoders_unfiltered:
  assumes "\<not> filterApplies (filterAddress p)"
  shows "List.map_filter (certificateIssued_log p creds r) logs
           = map (certificateIssued_event creds r) logs"
    and "List.map_filter (certificateTransferred_log p creds r) logs
           = map (certificateTransferred_event creds r) logs"
    and "List.map_filter (didCreated_log p creds r) logs
           = map (didCreated_event creds r)
               (filter (\<lambda>l. toLowerCase (topicAddress (log_topics l) 1) = toLowerCase (dataOwner l))
                  logs)"
    and "List.map_filter (didUpdated_log p creds r) logs
           = map (didUpdated_event creds r) logs"
    and "List.map_filter (assetRegistered_log p creds r) scanLogs
           = map (assetRegistered_event creds r) scanLogs"
proof -
  note d = decoders_without_filter(1-5) [OF assms, of creds r]
  show "List.map_filter (certificateIssued_log p creds r) logs
           = map (certificateIssued_event creds r) logs"
    by (induction logs) (simp_all add: List.map_filter_simps d)
  show "List.map_filter (certificateTransferred_log p creds r) logs
           = map (certificateTransferred_event creds r) logs"
    by (induction logs) (simp_all add: List.map_filter_simps d)
  show "List.map_filter (didCreated_log p creds r) logs
           = map (didCreated_event creds r)
               (filter (\<lambda>l. toLowerCase (topicAddress (log_topics l) 1) = toLowerCase (dataOwner l))
                  logs)"
    by (induction logs) (simp_all add: List.map_filter_simps d)
  show "List.map_filter (didUpdated_log p creds r) logs
           = map (didUpdated_event creds r) logs"
    by (induction logs) (simp_all add: List.map_filter_simps d)
  show "List.map_filter (assetRegistered_log p creds r) scanLogs
           = map (assetRegistered_event creds r) scanLogs"
    by (induction scanLogs) (simp_all add: List.map_filter_simps d)
qed

text \<open>
  C10. A filter address that fails \<^verbatim>\<open>isValidAddress\<close> filters nothing. Each log decoder
  and the asset decoder return one event for every log that was fetched (the DID-created
  decoder for every log whose identity is its owner); the large-transfer decoder scans
  every block of the window, and a block whose values all read as numbers yields one
  event for every transaction at or above the cutoff, whatever its addresses. Every
  decoder, and so the whole poll, returns what it returns with the filter left empty, so
  the invalid filter raises nothing of its own.
\<close>

theorem invalid_filter_is_skipped:
  assumes "\<not> isValidAddress (filterAddress p)"
  shows "(\<forall>fromB toB logs.
            executeRpcRequest (eth_getLogs r (certificateIssued_request p fromB toB)) = Inr logs
            \<longrightarrow> pollCertificateIssued p creds r fromB toB
                  = Inr (map (certificateIssued_event creds r) logs))
       \<and> (\<forall>fromB toB logs.
            executeRpcRequest (eth_getLogs r (certificateTransferred_request p fromB toB)) = Inr logs
            \<longrightarrow> pollCertificateTransferred p creds r fromB toB
                  = Inr (map (certificateTransferred_event creds r) logs))
       \<and> (\<forall>fromB toB logs.
            executeRpcRequest (eth_getLogs r (didCreated_request creds fromB toB)) = Inr logs
            \<longrightarrow> pollDIDCreated p creds r fromB toB
                  = Inr (map (didCreated_event creds r)
                          (filter (\<lambda>l. toLowerCase (topicAddress (log_topics l) 1)
                                          = toLowerCase (dataOwner l))
                             logs)))
       \<and> (\<forall>fromB toB logs.
            executeRpcRequest (eth_getLogs r (didUpdated_request creds fromB toB)) = Inr logs
            \<longrightarrow> pollDIDUpdated p creds r fromB toB
                  = Inr (map (didUpdated_event creds r) logs))
       \<and> (\<forall>fromB toB response.
            executeEwScanRequest
              (ewScan r ''/v1/logs''
                 \<lparr> from_block = fromB, to_block = toB, topic = ''AssetRegistered'' \<rparr>) = Inr response
            \<longrightarrow> pollAssetRegistered p creds r fromB toB
                  = Inr (map (assetRegistered_event creds r)
                          (case items response of Some ls \<Rightarrow> ls | None \<Rightarrow> [])))
       \<and> (\<forall>w f t.
            thresholdWei p = Inr w
            \<longrightarrow> pollLargeTransfer p creds r (Num f) (Num t)
                  = Inr (fold (scanBlock r (largeTransfer_tx p creds w)) [f..t] []))
       \<and> (\<forall>w b blk txs events.
            executeRpcRequest (eth_getBlockByNumber r (numberToHex (Num b)) True) = Inr (Some blk)
            \<and> block_transactions blk = Some txs
            \<and> (\<forall>tx \<in> set txs. \<exists>v. BigInt_string (valueOrZero tx) = Inr v)
            \<longrightarrow> (\<exists>evs. scanBlock r (largeTransfer_tx p creds w) b events = events @ evs
                       \<and> map transactionHash evs = map tx_hash (filter (reachesThreshold w) txs)
                       \<and> map from_address evs = map tx_from (filter (reachesThreshold w) txs)
                       \<and> map to_option evs = map tx_to (filter (reachesThreshold w) txs)))
       \<and> (\<forall>l. certificateIssued_log p creds r l = Some (certificateIssued_event creds r l))
       \<and> (\<forall>l. certificateTransferred_log p creds r l = Some (certificateTransferred_event creds r l))
       \<and> (\<forall>l. didUpdated_log p creds r l = Some (didUpdated_event creds r l))
       \<and> (\<forall>s. assetRegistered_log p creds r s = Some (assetRegistered_event creds r s))
       \<and> (\<forall>t fromB toB. dispatch t p creds r fromB toB
                            = dispatch t (p \<lparr> filterAddress := [] \<rparr>) creds r fromB toB)
       \<and> poll p creds r sd = poll (p \<lparr> filterAddress := [] \<rparr>) creds r sd"
proof -
  note n = invalid_filter_not_applied [OF assms]
  note u = log_decoders_unfiltered [OF n, of creds r]
  have a: "\<forall>fromB toB logs.
            executeRpcRequest (eth_getLogs r (certificateIssued_request p fromB toB)) = Inr logs
            \<longrightarrow> pollCertificateIssued p creds r fromB toB
                  = Inr (map (certificateIssued_event creds r) logs)"
    by (simp add: pollCertificateIssued_def u)
  have b: "\<forall>fromB toB logs.
            executeRpcRequest (eth_getLogs r (certificateTransferred_request p fromB toB)) = Inr logs
            \<longrightarrow> pollCertificateTransferred p creds r fromB toB
                  = Inr (map (certificateTransferred_event creds r) logs)"
    by (simp add: pollCertificateTransferred_def u)
  have c: "\<forall>fromB toB logs.
            executeRpcRequest (eth_getLogs r (didCreated_request creds fromB toB)) = Inr logs
            \<longrightarrow> pollDIDCreated p creds r fromB toB
                  = Inr (map (didCreated_event creds r)
                          (filter (\<lambda>l. toLowerCase (topicAddress (log_topics l) 1)
                                          = toLowerCase (dataOwner l))
                             logs))"
    by (simp add: pollDIDCreated_def u)
  have d: "\<forall>fromB toB logs.
            executeRpcRequest (eth_getLogs r (didUpdated_request creds fromB toB)) = Inr logs
            \<longrightarrow> pollDIDUpdated p creds r fromB toB
                  = Inr (map (didUpdated_event creds r) logs)"
    by (simp add: pollDIDUpdated_def u)
  have e: "\<forall>fromB toB response.
            executeEwScanRequest
              (ewScan r ''/v1/logs''
                 \<lparr> from_block = fromB, to_block = toB, topic = ''AssetRegistered'' \<rparr>) = Inr response
            \<longrightarrow> pollAssetRegistered p creds r fromB toB
                  = Inr (map (assetRegistered_event creds r)
                          (case items response of Some ls \<Rightarrow> ls | None \<Rightarrow> []))"
    by (simp add: pollAssetRegistered_def u)
  have f: "\<forall>w f t.
            thresholdWei p = Inr w
            \<longrightarrow> pollLargeTransfer p creds r (Num f) (Num t)
                  = Inr (fold (scanBlock r (largeTransfer_tx p creds w)) [f..t] [])"
    by (simp add: pollLargeTransfer_def forBatches_fold)
  have g: "\<forall>w b blk txs events.
            executeRpcRequest (eth_getBlockByNumber r (numberToHex (Num b)) True) = Inr (Some blk)
            \<and> block_transactions blk = Some txs
            \<and> (\<forall>tx \<in> set txs. \<exists>v. BigInt_string (valueOrZero tx) = Inr v)
            \<longrightarrow> (\<exists>evs. scanBlock r (largeTransfer_tx p creds w) b events = events @ evs
                       \<and> map transactionHash evs = map tx_hash (filter (reachesThreshold w) txs)
                       \<and> map from_address evs = map tx_from (filter (reachesThreshold w) txs)
                       \<and> map to_option evs = map tx_to (filter (reachesThreshold w) txs))"
  proof (intro allI impI)
    fix w b blk txs events
    assume h: "executeRpcRequest (eth_getBlockByNumber r (numberToHex (Num b)) True) = Inr (Some blk)
            \<and> block_transactions blk = Some txs
            \<and> (\<forall>tx \<in> set txs. \<exists>v. BigInt_string (valueOrZero tx) = Inr v)"
    then have "\<forall>tx \<in> set txs. \<exists>v. BigInt_string (valueOrZero tx) = Inr v"
      by blast
    from forTransactions_unfiltered [OF n this, of creds w blk events] h
    show "\<exists>evs. scanBlock r (largeTransfer_tx p creds w) b events = events @ evs
                       \<and> map transactionHash evs = map tx_hash (filter (reachesThreshold w) txs)
                       \<and> map from_address evs = map tx_from (filter (reachesThreshold w) txs)
                       \<and> map to_option evs = map tx_to (filter (reachesThreshold w) txs)"
      by (simp add: scanBlock_def)
  qed
  have k: "poll p creds r sd = poll (p \<lparr> filterAddress := [] \<rparr>) creds r sd"
    by (cases "executeRpcRequest (eth_blockNumber r)")
       (simp_all add: poll_def Let_def dispatch_without_filter [OF n, symmetric])
  have m: "(\<forall>l. certificateIssued_log p creds r l = Some (certificateIssued_event creds r l))
       \<and> (\<forall>l. certificateTransferred_log p creds r l = Some (certificateTransferred_event creds r l))
       \<and> (\<forall>l. didUpdated_log p creds r l = Some (didUpdated_event creds r l))
       \<and> (\<forall>s. assetRegistered_log p creds r s = Some (assetRegistered_event creds r s))
       \<and> (\<forall>t fromB toB. dispatch t p creds r fromB toB
                            = dispatch t (p \<lparr> filterAddress := [] \<rparr>) creds r fromB toB)"
    by (simp add: decoders_without_filter [OF n] dispatch_without_filter [OF n, symmetric])
  from a b c d e f g m k show ?thesis
    by (intro conjI) blast+
qed


lemma indexed_items:
  "executeEwScanRequest (ewScan indexed_remote path q) = Inr \<lparr> items = Some [asset_item] \<rparr>"
  by (simp add: indexed_remote_def executeEwScanRequest_def)

lemma asset_item_owner:
  "owner (assetRegistered_event creds r asset_item) = ''0xAAAAAAAAAAAAAAAAAAAAAAAAAAAAAAAAAAAAAAAA''"
  by (simp add: assetRegistered_event_def asset_item_def topicAddress_def topicPresent_def
        slice_last_def)

lemma abbreviated_thresholdWei:
  "thresholdWei abbreviated_filter_parameters = Inr 100000000000000000000"
  by (simp add: thresholdWei_def abbreviated_filter_parameters_def example_parameters_def)

lemma example_block_values:
  "\<forall>tx \<in> set [transfer_below_threshold, transfer_at_threshold].
     \<exists>v. BigInt_string (valueOrZero tx) = Inr v"
  by (simp add: value_at_threshold value_below_threshold)

lemma example_block_reaches:
  "filter (reachesThreshold 100000000000000000000) [transfer_below_threshold, transfer_at_threshold]
     = [transfer_at_threshold]"
  by (simp add: reachesThreshold_def value_at_threshold value_below_threshold)

theorem invalid_filter_is_skipped_witness:
  "filterAddress abbreviated_filter_parameters = ''0xCCCC...CCCC''
   \<and> \<not> isValidAddress (filterAddress abbreviated_filter_parameters)
   \<and> to_address (certificateTransferred_event example_credentials example_remote
                   (transfer_log txHash_new)) = ''0xBBBBBBBBBBBBBBBBBBBBBBBBBBBBBBBBBBBBBBBB''
   \<and> pollCertificateTransferred abbreviated_filter_parameters example_credentials example_remote
        (Num 401) (Num 450)
       = Inr [certificateTransferred_event example_credentials example_remote (transfer_log txHash_old),
              certificateTransferred_event example_credentials example_remote (transfer_log txHash_new)]
   \<and> owner (assetRegistered_event example_credentials indexed_remote asset_item)
       = ''0xAAAAAAAAAAAAAAAAAAAAAAAAAAAAAAAAAAAAAAAA''
   \<and> pollAssetRegistered abbreviated_filter_parameters example_credentials indexed_remote
        (Num 401) (Num 450)
       = Inr [assetRegistered_event example_credentials indexed_remote asset_item]
   \<and> tx_from transfer_at_threshold = ''0xAAAAAAAAAAAAAAAAAAAAAAAAAAAAAAAAAAAAAAAA''
   \<and> map_sum id (map transactionHash)
        (pollLargeTransfer abbreviated_filter_parameters example_credentials block_remote
           (Num 450) (Num 450)) = Inr [txHash_new]
   \<and> fst (poll abbreviated_filter_parameters example_credentials example_remote example_staticData)
       = Inr (Some [certificateTransferred_event example_credentials example_remote
                      (transfer_log txHash_new)])"
proof -
  note t = invalid_filter_is_skipped [OF abbreviated_filter_invalid, of _ example_credentials]
  from t [of example_remote] example_logs
  have a: "pollCertificateTransferred abbreviated_filter_parameters example_credentials
        example_remote (Num 401) (Num 450)
       = Inr [certificateTransferred_event example_credentials example_remote (transfer_log txHash_old),
              certificateTransferred_event example_credentials example_remote (transfer_log txHash_new)]"
    by simp
  from t [of indexed_remote] indexed_items
  have b: "pollAssetRegistered abbreviated_filter_parameters example_credentials indexed_remote
        (Num 401) (Num 450)
       = Inr [assetRegistered_event example_credentials indexed_remote asset_item]"
    by simp
  from t [of block_remote] abbreviated_thresholdWei
  have c1: "pollLargeTransfer abbreviated_filter_parameters example_credentials block_remote
        (Num 450) (Num 450)
       = Inr (scanBlock block_remote
                (largeTransfer_tx abbreviated_filter_parameters example_credentials
                   100000000000000000000) 450 [])"
    by simp
  have blk: "executeRpcRequest (eth_getBlockByNumber block_remote (numberToHex (Num 450)) True)
        = Inr (Some example_block)
      \<and> block_transactions example_block = Some [transfer_below_threshold, transfer_at_threshold]
      \<and> (\<forall>tx \<in> set [transfer_below_threshold, transfer_at_threshold].
            \<exists>v. BigInt_string (valueOrZero tx) = Inr v)"
    using example_block_values
    by (simp add: numberToHex_450 block_remote_block example_block_def)
  note lt = t [of block_remote example_staticData, THEN conjunct2, THEN conjunct2,
      THEN conjunct2, THEN conjunct2, THEN conjunct2, THEN conjunct2, THEN conjunct1,
      rule_format, OF blk, where w = 100000000000000000000 and events = "[]"]
  have h: "tx_hash transfer_at_threshold = txHash_new"
    by (simp add: transfer_at_threshold_def)
  note lt' = lt [unfolded example_block_reaches]
  from lt' obtain evs where e1: "scanBlock block_remote
                (largeTransfer_tx abbreviated_filter_parameters example_credentials
                   100000000000000000000) 450 [] = evs"
      and e2: "map transactionHash evs = [txHash_new]"
    by (auto simp: h)
  have c: "map_sum id (map transactionHash)
        (pollLargeTransfer abbreviated_filter_parameters example_credentials block_remote
           (Num 450) (Num 450)) = Inr [txHash_new]"
    by (simp add: c1 e1 e2)
  from t [of example_remote example_staticData]
  have "poll abbreviated_filter_parameters example_credentials example_remote example_staticData
      = poll (abbreviated_filter_parameters \<lparr> filterAddress := [] \<rparr>) example_credentials
          example_remote example_staticData"
    by blast
  then have d: "fst (poll abbreviated_filter_parameters example_credentials example_remote
        example_staticData)
       = Inr (Some [certificateTransferred_event example_credentials example_remote
                      (transfer_log txHash_new)])"
    by (simp add: abbreviated_filter_removed example_poll)
  have e: "filterAddress abbreviated_filter_parameters = ''0xCCCC...CCCC''"
    by (simp add: abbreviated_filter_parameters_def)
  have f: "tx_from transfer_at_threshold = ''0xAAAAAAAAAAAAAAAAAAAAAAAAAAAAAAAAAAAAAAAA''"
    by (simp add: transfer_at_threshold_def)
  have g: "to_address (certificateTransferred_event example_credentials example_remote
                   (transfer_log txHash_new)) = ''0xBBBBBBBBBBBBBBBBBBBBBBBBBBBBBBBBBBBBBBBB''"
    by (simp add: certificateTransferred_event_def transfer_log_to)
  from e abbreviated_filter_invalid g a asset_item_owner b f c d show ?thesis
    by (intro conjI)
qed

end
